theory Spec2Isabelle
  imports Main "HOL-Library.Word" "HOL-Library.Multiset"
begin

unbundle bit_operations_syntax

section \<open>Common types of \<^verbatim>\<open>udp_async_sketch.cpp\<close>\<close>

text \<open>
  \<^verbatim>\<open>sockaddr_in\<close> as the C library lays it out: family, port and address (both in
  network byte order) and the eight bytes of padding. The \<^verbatim>\<open>sockaddr_storage\<close> objects
  of the source are only ever read through \<^verbatim>\<open>reinterpret_cast<sockaddr_in *>\<close> and
  \<^verbatim>\<open>ss_family\<close>, which overlays \<^verbatim>\<open>sin_family\<close>, so they carry the same record.
\<close>

record sockaddr_in =
  sin_family :: "16 word"
  sin_port :: "16 word"
  sin_addr :: "32 word"
  sin_zero :: "64 word"

text \<open>\<^verbatim>\<open>struct endpoint\<close>: the numeric address and port, and the embedded kernel-format
  storage (the union member \<^verbatim>\<open>sin\<close>).\<close>

record endpoint =
  address :: "32 word"
  port :: "16 word"
  sin :: sockaddr_in

definition zero_sockaddr :: sockaddr_in where
  "zero_sockaddr = \<lparr>sin_family = 0, sin_port = 0, sin_addr = 0, sin_zero = 0\<rparr>"

text \<open>\<^verbatim>\<open>endpoint ep{}\<close> and \<^verbatim>\<open>endpoint{}\<close>: value initialisation zeroes every member.\<close>

definition zero_endpoint :: endpoint where
  "zero_endpoint = \<lparr>address = 0, port = 0, sin = zero_sockaddr\<rparr>"

definition AF_INET :: "16 word" where
  "AF_INET = 2"

text \<open>Byte order conversion on a little-endian host: the bytes are reversed.\<close>

definition htons :: "16 word \<Rightarrow> 16 word" where
  "htons x = push_bit 8 x OR drop_bit 8 x"

definition htonl :: "32 word \<Rightarrow> 32 word" where
  "htonl x = push_bit 24 x OR push_bit 8 (x AND 0xFF00)
               OR (drop_bit 8 x AND 0xFF00) OR drop_bit 24 x"

definition ntohs :: "16 word \<Rightarrow> 16 word" where
  "ntohs x = htons x"

definition ntohl :: "32 word \<Rightarrow> 32 word" where
  "ntohl x = htonl x"

text \<open>\<^verbatim>\<open>std::span\<close>: a pointer and a length; the bytes stay with the caller.\<close>

record buffer =
  buf_data :: nat
  buf_size :: nat

text \<open>\<^verbatim>\<open>std::error_code\<close>: a value and a category; the default one is
  \<^verbatim>\<open>(0, system_category)\<close> and \<^verbatim>\<open>!ec\<close> tests the value.\<close>

datatype category = system_category | generic_category

datatype error_code = error_code int category

definition no_error :: error_code where
  "no_error = error_code 0 system_category"

fun ec_value :: "error_code \<Rightarrow> int" where
  "ec_value (error_code v c) = v"

definition is_error :: "error_code \<Rightarrow> bool" where
  "is_error ec = (ec_value ec \<noteq> 0)"

text \<open>
  The caller's callbacks (\<^verbatim>\<open>completion_handler\<close>, \<^verbatim>\<open>receive_handler\<close>) are closures
  the core never looks into. A callback is modelled by an identity, under which its
  invocations are recorded, and by the one effect on the core that the properties below speak of:
  whether its body calls \<^verbatim>\<open>stop()\<close> on the loop. A body that issues further operations
  on a socket is outside this model: a program issues them as steps of their own, and
  what is proved below is proved for callbacks that at most stop the loop.
\<close>

record handler =
  hid :: nat
  hstop :: bool

text \<open>One invocation of a callback, with the arguments it received.\<close>

datatype event =
    SendDone nat error_code nat
  | RecvDone nat error_code nat endpoint





text \<open>What a system call hands back: its return value and \<^verbatim>\<open>errno\<close>; for
  \<^verbatim>\<open>recvfrom\<close> also the sender address the kernel stored.\<close>

record sys_out =
  sys_ret :: int
  sys_errno :: int

record recv_out =
  rv_ret :: int
  rv_errno :: int
  rv_addr :: sockaddr_in

text \<open>The system calls are parameters of the model: a call is a function of the
  arguments the code passes (descriptor, buffer view, destination).\<close>

type_synonym sendto_fn = "int \<Rightarrow> buffer \<Rightarrow> sockaddr_in \<Rightarrow> sys_out"
type_synonym recvfrom_fn = "int \<Rightarrow> buffer \<Rightarrow> recv_out"

text \<open>The outcome of running a loop on what the kernel delivers: \<^verbatim>\<open>run()\<close> returned, or
  the thread sits in the wait call and nothing more arrives, or the loop called
  \<^verbatim>\<open>complete\<close> through a pointer to a record that no longer exists.\<close>

datatype run_status = Returned | Blocked | Fault

section \<open>The readiness backend (kqueue)\<close>

text \<open>Constants of \<^verbatim>\<open><sys/event.h>\<close> and \<^verbatim>\<open><sys/errno.h>\<close> on macOS and FreeBSD.\<close>

definition EVFILT_READ :: int where "EVFILT_READ = -1"
definition EVFILT_WRITE :: int where "EVFILT_WRITE = -2"
definition EV_ADD :: "16 word" where "EV_ADD = 0x0001"
definition EV_DELETE :: "16 word" where "EV_DELETE = 0x0002"
definition EV_ENABLE :: "16 word" where "EV_ENABLE = 0x0004"
definition EV_CLEAR :: "16 word" where "EV_CLEAR = 0x0020"
definition EINTR :: int where "EINTR = 4"
definition EAGAIN :: int where "EAGAIN = 35"
definition EWOULDBLOCK :: int where "EWOULDBLOCK = EAGAIN"

text \<open>\<^verbatim>\<open>struct kevent\<close> as \<^verbatim>\<open>EV_SET\<close> fills it.\<close>

record kevent_t =
  kev_ident :: int
  kev_filter :: int
  kev_flags :: "16 word"
  kev_udata :: int

type_synonym kevent_fn = "int \<Rightarrow> kevent_t \<Rightarrow> sys_out"

text \<open>\<^verbatim>\<open>struct pending_ops\<close>; a null \<^verbatim>\<open>unique_ptr\<close> is \<open>None\<close>.\<close>

record pending_ops =
  send_handler :: "handler option"
  send_buffer :: buffer
  send_endpoint :: endpoint
  recv_handler :: "handler option"
  recv_buffer :: buffer

text \<open>The value \<^verbatim>\<open>pending_operations_[fd_]\<close> inserts for a missing key.\<close>

definition empty_pending_ops :: pending_ops where
  "empty_pending_ops =
     \<lparr>send_handler = None, send_buffer = \<lparr>buf_data = 0, buf_size = 0\<rparr>,
      send_endpoint = zero_endpoint,
      recv_handler = None, recv_buffer = \<lparr>buf_data = 0, buf_size = 0\<rparr>\<rparr>"

text \<open>A socket object: \<^verbatim>\<open>fd_\<close> and \<^verbatim>\<open>kq_\<close>.\<close>

record kq_socket =
  kq_fd :: int
  kq_kq :: int

text \<open>
  What the sockets and the loop share: the static table \<^verbatim>\<open>pending_operations_\<close>, the
  static \<^verbatim>\<open>global_kq_\<close>, the loop's \<^verbatim>\<open>running_\<close>, the interests the kernel holds
  (kqueue descriptor, identifier, filter) and the callbacks invoked so far.
\<close>

record kq_world =
  pending_operations :: "int \<rightharpoonup> pending_ops"
  global_kq :: int
  kq_running :: bool
  kq_registered :: "(int \<times> int \<times> int) set"
  kq_trace :: "event list"

text \<open>\<^verbatim>\<open>kqueue_event_loop::stop\<close>: only the flag.\<close>

definition kqueue_stop :: "kq_world \<Rightarrow> kq_world" where
  "kqueue_stop w = w\<lparr>kq_running := False\<rparr>"

text \<open>Calling a send or a receive callback: the invocation is recorded, then the body
  runs.\<close>

definition kq_call_send :: "handler \<Rightarrow> error_code \<Rightarrow> nat \<Rightarrow> kq_world \<Rightarrow> kq_world" where
  "kq_call_send h ec n w =
     (let w' = w\<lparr>kq_trace := kq_trace w @ [SendDone (hid h) ec n]\<rparr>
      in if hstop h then kqueue_stop w' else w')"

definition kq_call_recv ::
  "handler \<Rightarrow> error_code \<Rightarrow> nat \<Rightarrow> endpoint \<Rightarrow> kq_world \<Rightarrow> kq_world" where
  "kq_call_recv h ec n ep w =
     (let w' = w\<lparr>kq_trace := kq_trace w @ [RecvDone (hid h) ec n ep]\<rparr>
      in if hstop h then kqueue_stop w' else w')"

text \<open>One change handed to \<^verbatim>\<open>kevent\<close>: when the call succeeds the kernel adds or
  deletes the interest.\<close>

definition kq_kevent :: "kevent_fn \<Rightarrow> int \<Rightarrow> kevent_t \<Rightarrow> kq_world \<Rightarrow> sys_out \<times> kq_world" where
  "kq_kevent kevent kq ev w =
     (let r = kevent kq ev
      in if sys_ret r < 0 then (r, w)
         else if kev_flags ev AND EV_DELETE \<noteq> 0 then
           (r, w\<lparr>kq_registered := kq_registered w - {(kq, kev_ident ev, kev_filter ev)}\<rparr>)
         else if kev_flags ev AND EV_ADD \<noteq> 0 then
           (r, w\<lparr>kq_registered := insert (kq, kev_ident ev, kev_filter ev) (kq_registered w)\<rparr>)
         else (r, w))"

text \<open>The \<^verbatim>\<open>sockaddr_in\<close> that \<^verbatim>\<open>bind\<close>, \<^verbatim>\<open>async_send_to\<close> and \<^verbatim>\<open>handle_ready\<close> build
  from the numeric fields.\<close>

definition sockaddr_of :: "endpoint \<Rightarrow> sockaddr_in" where
  "sockaddr_of ep =
     \<lparr>sin_family = AF_INET, sin_port = htons (port ep),
      sin_addr = htonl (address ep), sin_zero = 0\<rparr>"

text \<open>The endpoint a receive path fills from an \<^verbatim>\<open>AF_INET\<close> sender: only the numeric
  fields, on top of \<^verbatim>\<open>endpoint ep{}\<close>.\<close>

definition endpoint_of :: "sockaddr_in \<Rightarrow> endpoint" where
  "endpoint_of a =
     zero_endpoint\<lparr>address := ntohl (sin_addr a), port := ntohs (sin_port a)\<rparr>"

definition pending_entry :: "kq_world \<Rightarrow> int \<Rightarrow> pending_ops" where
  "pending_entry w fd =
     (case pending_operations w fd of None \<Rightarrow> empty_pending_ops | Some ops \<Rightarrow> ops)"

definition write_interest :: "int \<Rightarrow> kevent_t" where
  "write_interest fd =
     \<lparr>kev_ident = fd, kev_filter = EVFILT_WRITE, kev_flags = EV_ADD OR EV_ENABLE OR EV_CLEAR,
      kev_udata = fd\<rparr>"

definition read_interest :: "int \<Rightarrow> kevent_t" where
  "read_interest fd =
     \<lparr>kev_ident = fd, kev_filter = EVFILT_READ, kev_flags = EV_ADD OR EV_ENABLE OR EV_CLEAR,
      kev_udata = fd\<rparr>"

definition delete_interest :: "int \<Rightarrow> int \<Rightarrow> kevent_t" where
  "delete_interest fd flt = \<lparr>kev_ident = fd, kev_filter = flt, kev_flags = EV_DELETE,
      kev_udata = 0\<rparr>"

text \<open>\<^verbatim>\<open>kqueue_udp_socket::async_send_to\<close>.\<close>

definition kq_async_send_to ::
  "sendto_fn \<Rightarrow> kevent_fn \<Rightarrow> kq_socket \<Rightarrow> buffer \<Rightarrow> endpoint \<Rightarrow> handler
     \<Rightarrow> kq_world \<Rightarrow> kq_world" where
  "kq_async_send_to sendto kevent so data ep h w =
     (let result = sendto (kq_fd so) data (sockaddr_of ep)
      in if 0 \<le> sys_ret result then
           kq_call_send h no_error (nat (sys_ret result)) w
         else if sys_errno result \<noteq> EAGAIN \<and> sys_errno result \<noteq> EWOULDBLOCK then
           kq_call_send h (error_code (sys_errno result) generic_category) 0 w
         else
           let ops = (pending_entry w (kq_fd so))
                       \<lparr>send_handler := Some h, send_buffer := data, send_endpoint := ep\<rparr>;
               w1 = w\<lparr>pending_operations := (pending_operations w)(kq_fd so \<mapsto> ops)\<rparr>;
               (r, w2) = kq_kevent kevent (kq_kq so) (write_interest (kq_fd so)) w1
           in if sys_ret r < 0 then
                let w3 = kq_call_send h (error_code (sys_errno r) generic_category) 0 w2
                in w3\<lparr>pending_operations :=
                       (pending_operations w3)(kq_fd so \<mapsto> ops\<lparr>send_handler := None\<rparr>)\<rparr>
              else w2)"

text \<open>\<^verbatim>\<open>kqueue_udp_socket::async_receive_from\<close>.\<close>

definition kq_async_receive_from ::
  "recvfrom_fn \<Rightarrow> kevent_fn \<Rightarrow> kq_socket \<Rightarrow> buffer \<Rightarrow> handler \<Rightarrow> kq_world \<Rightarrow> kq_world" where
  "kq_async_receive_from recvfrom kevent so data h w =
     (let result = recvfrom (kq_fd so) data
      in if 0 \<le> rv_ret result then
           let ep = (if sin_family (rv_addr result) = AF_INET
                     then endpoint_of (rv_addr result) else zero_endpoint)
           in kq_call_recv h no_error (nat (rv_ret result)) ep w
         else if rv_errno result \<noteq> EAGAIN \<and> rv_errno result \<noteq> EWOULDBLOCK then
           kq_call_recv h (error_code (rv_errno result) generic_category) 0 zero_endpoint w
         else
           let ops = (pending_entry w (kq_fd so))\<lparr>recv_handler := Some h, recv_buffer := data\<rparr>;
               w1 = w\<lparr>pending_operations := (pending_operations w)(kq_fd so \<mapsto> ops)\<rparr>;
               (r, w2) = kq_kevent kevent (kq_kq so) (read_interest (kq_fd so)) w1
           in if sys_ret r < 0 then
                let w3 = kq_call_recv h (error_code (sys_errno r) generic_category) 0
                           zero_endpoint w2
                in w3\<lparr>pending_operations :=
                       (pending_operations w3)(kq_fd so \<mapsto> ops\<lparr>recv_handler := None\<rparr>)\<rparr>
              else w2)"

text \<open>A call of \<^verbatim>\<open>kevent\<close> with a change list and no room for events: the changes are
  applied in order and the call fails at the first change the kernel refuses.\<close>

fun kq_kevent_list :: "kevent_fn \<Rightarrow> int \<Rightarrow> kevent_t list \<Rightarrow> kq_world \<Rightarrow> kq_world" where
  "kq_kevent_list kevent kq [] w = w"
| "kq_kevent_list kevent kq (ev # evs) w =
     (let (r, w1) = kq_kevent kevent kq ev w
      in if sys_ret r < 0 then w1 else kq_kevent_list kevent kq evs w1)"

text \<open>\<^verbatim>\<open>::close(fd)\<close>: the kernel drops every interest in the descriptor.\<close>

definition sys_close :: "int \<Rightarrow> kq_world \<Rightarrow> kq_world" where
  "sys_close fd w =
     w\<lparr>kq_registered := {x \<in> kq_registered w. fst (snd x) \<noteq> fd}\<rparr>"

text \<open>\<^verbatim>\<open>kqueue_udp_socket::close\<close>.\<close>

definition kq_close :: "kevent_fn \<Rightarrow> kq_socket \<Rightarrow> kq_world \<Rightarrow> kq_socket \<times> kq_world" where
  "kq_close kevent so w =
     (if 0 \<le> kq_fd so then
        let w1 = kq_kevent_list kevent (kq_kq so)
                   [delete_interest (kq_fd so) EVFILT_READ,
                    delete_interest (kq_fd so) EVFILT_WRITE] w;
            w2 = w1\<lparr>pending_operations := (pending_operations w1)(kq_fd so := None)\<rparr>;
            w3 = sys_close (kq_fd so) w2
        in (so\<lparr>kq_fd := -1\<rparr>, w3)
      else (so, w))"

text \<open>\<^verbatim>\<open>kqueue_udp_socket::handle_ready\<close>, its two blocks in order. Each looks the
  descriptor up in the table again, which is what the reference \<^verbatim>\<open>ops\<close> denotes.\<close>

definition handle_ready_write ::
  "sendto_fn \<Rightarrow> kevent_fn \<Rightarrow> int \<Rightarrow> int \<Rightarrow> kq_world \<Rightarrow> kq_world" where
  "handle_ready_write sendto kevent fd flt w =
     (case pending_operations w fd of
        None \<Rightarrow> w
      | Some ops \<Rightarrow>
          (case send_handler ops of
             None \<Rightarrow> w
           | Some h \<Rightarrow>
               if flt = EVFILT_WRITE then
                 let result = sendto fd (send_buffer ops) (sockaddr_of (send_endpoint ops));
                     w1 = (if 0 \<le> sys_ret result
                           then kq_call_send h no_error (nat (sys_ret result)) w
                           else kq_call_send h
                                  (error_code (sys_errno result) generic_category) 0 w);
                     w2 = w1\<lparr>pending_operations :=
                            (pending_operations w1)(fd \<mapsto> ops\<lparr>send_handler := None\<rparr>)\<rparr>
                 in snd (kq_kevent kevent (global_kq w2) (delete_interest fd EVFILT_WRITE) w2)
               else w))"

definition handle_ready_read ::
  "recvfrom_fn \<Rightarrow> kevent_fn \<Rightarrow> int \<Rightarrow> int \<Rightarrow> kq_world \<Rightarrow> kq_world" where
  "handle_ready_read recvfrom kevent fd flt w =
     (case pending_operations w fd of
        None \<Rightarrow> w
      | Some ops \<Rightarrow>
          (case recv_handler ops of
             None \<Rightarrow> w
           | Some h \<Rightarrow>
               if flt = EVFILT_READ then
                 let result = recvfrom fd (recv_buffer ops);
                     ep = (if 0 \<le> rv_ret result \<and> sin_family (rv_addr result) = AF_INET
                           then endpoint_of (rv_addr result) else zero_endpoint);
                     w1 = (if 0 \<le> rv_ret result
                           then kq_call_recv h no_error (nat (rv_ret result)) ep w
                           else kq_call_recv h
                                  (error_code (rv_errno result) generic_category) 0 ep w);
                     w2 = w1\<lparr>pending_operations :=
                            (pending_operations w1)(fd \<mapsto> ops\<lparr>recv_handler := None\<rparr>)\<rparr>
                 in snd (kq_kevent kevent (global_kq w2) (delete_interest fd EVFILT_READ) w2)
               else w))"

definition handle_ready ::
  "sendto_fn \<Rightarrow> recvfrom_fn \<Rightarrow> kevent_fn \<Rightarrow> int \<Rightarrow> int \<Rightarrow> kq_world \<Rightarrow> kq_world" where
  "handle_ready sendto recvfrom kevent fd flt w =
     handle_ready_read recvfrom kevent fd flt (handle_ready_write sendto kevent fd flt w)"

text \<open>
  \<^verbatim>\<open>kqueue_event_loop::run\<close>. What the wait call \<^verbatim>\<open>kevent(kq_, NULL, 0, events, 64, NULL)\<close>
  returns is the kernel's: a batch of ready descriptors, each with the system calls its
  dispatch will meet, or a failure with its \<^verbatim>\<open>errno\<close>. The loop is run against the list
  of what the successive waits return; when the list is used up nothing more arrives and
  the thread stays in the wait.
\<close>

record kq_ready =
  rd_fd :: int
  rd_filter :: int
  rd_sendto :: sendto_fn
  rd_recvfrom :: recvfrom_fn
  rd_kevent :: kevent_fn

datatype kq_wait = KqEvents "kq_ready list" | KqError int

fun kq_dispatch :: "kq_ready list \<Rightarrow> kq_world \<Rightarrow> kq_world" where
  "kq_dispatch [] w = w"
| "kq_dispatch (e # es) w =
     kq_dispatch es
       (handle_ready (rd_sendto e) (rd_recvfrom e) (rd_kevent e) (rd_fd e) (rd_filter e) w)"

text \<open>The loop from the point where the thread enters the wait call.\<close>

fun kq_from_wait :: "kq_wait list \<Rightarrow> kq_world \<Rightarrow> run_status \<times> kq_world" where
  "kq_from_wait [] w = (Blocked, w)"
| "kq_from_wait (KqError e # rest) w =
     (if e = EINTR \<and> kq_running w then kq_from_wait rest w else (Returned, w))"
| "kq_from_wait (KqEvents evs # rest) w =
     (let w1 = kq_dispatch evs w
      in if kq_running w1 then kq_from_wait rest w1 else (Returned, w1))"


section \<open>The ring backend (io\_uring)\<close>

definition EBUSY :: int where "EBUSY = 16"

text \<open>\<^verbatim>\<open>sizeof(sockaddr_in)\<close> and \<^verbatim>\<open>sizeof(sockaddr_storage)\<close>.\<close>

definition sizeof_sockaddr_in :: nat where "sizeof_sockaddr_in = 16"
definition sizeof_sockaddr_storage :: nat where "sizeof_sockaddr_storage = 128"

text \<open>\<^verbatim>\<open>struct msghdr\<close>, the fields the code sets after \<^verbatim>\<open>memset\<close>. The two pointers lead
  into the operation record itself and are kept as the record's address.\<close>

record msghdr =
  msg_name :: "nat option"
  msg_namelen :: nat
  msg_iov :: "nat option"
  msg_iovlen :: nat

definition zero_msghdr :: msghdr where
  "zero_msghdr = \<lparr>msg_name = None, msg_namelen = 0, msg_iov = None, msg_iovlen = 0\<rparr>"

text \<open>\<^verbatim>\<open>io_uring_udp_socket::send_operation\<close> and \<^verbatim>\<open>receive_operation\<close>.\<close>

record send_operation =
  so_handler :: handler
  so_addr :: sockaddr_in
  so_addr_len :: nat

record receive_operation =
  ro_handler :: handler
  ro_addr :: sockaddr_in
  ro_addr_len :: nat
  ro_msg :: msghdr
  ro_iov :: buffer

datatype operation = Send send_operation | Recv receive_operation

text \<open>
  A submission entry as the \<^verbatim>\<open>io_uring_prep_*\<close> call and \<^verbatim>\<open>io_uring_sqe_set_data\<close> leave
  it. \<open>Sqe_sendto fd data p len ud\<close>: the destination is read through the pointer
  \<^verbatim>\<open>&op->addr\<close> into the record at \<open>p\<close>. \<open>Sqe_recvmsg fd p ud\<close>: the message header is
  \<^verbatim>\<open>&recv_op->msg\<close> of the record at \<open>p\<close>. \<open>Sqe_nop ud\<close>: \<^verbatim>\<open>stop()\<close> prepares the no-op and
  never sets its user data, and \<^verbatim>\<open>io_uring_prep_nop\<close> leaves that field alone, so the entry
  carries whatever its slot of the submission ring held before.
\<close>

datatype sqe =
    Sqe_sendto int buffer nat nat "nat option"
  | Sqe_recvmsg int nat "nat option"
  | Sqe_nop "nat option"

fun sqe_user_data :: "sqe \<Rightarrow> nat option" where
  "sqe_user_data (Sqe_sendto fd data p len ud) = ud"
| "sqe_user_data (Sqe_recvmsg fd p ud) = ud"
| "sqe_user_data (Sqe_nop ud) = ud"

fun is_nop :: "sqe \<Rightarrow> bool" where
  "is_nop (Sqe_nop ud) = True"
| "is_nop s = False"

text \<open>A completion entry: \<^verbatim>\<open>cqe->res\<close> and the user data.\<close>

record cqe =
  cqe_res :: int
  cqe_user_data :: "nat option"

record uring_socket =
  ur_fd :: int

text \<open>
  The ring and what hangs on it: the entries written but not yet submitted and the size
  of the submission queue, the user data each slot of the submission ring still holds from
  its last use (none in a ring just set up) and the number of slots handed out so far, the
  entries the kernel holds, the completion queue, the operation records on the heap with
  the address the next \<^verbatim>\<open>new\<close> returns, the records deleted so far, the loop's
  \<^verbatim>\<open>running_\<close>, and the callbacks invoked so far.
\<close>

record uring_world =
  ur_sq :: "sqe list"
  ur_entries :: nat
  ur_slots :: "nat \<Rightarrow> nat option"
  ur_tail :: nat
  ur_inflight :: "sqe list"
  ur_cq :: "cqe list"
  ur_heap :: "nat \<rightharpoonup> operation"
  ur_next :: nat
  ur_deleted :: "nat list"
  ur_running :: bool
  ur_trace :: "event list"

text \<open>\<^verbatim>\<open>io_uring_get_sqe\<close> returns null when the submission queue is full.\<close>

definition sq_full :: "uring_world \<Rightarrow> bool" where
  "sq_full w = (ur_entries w \<le> length (ur_sq w))"

text \<open>The slot \<^verbatim>\<open>io_uring_get_sqe\<close> hands out next: the slots are used in ring order.\<close>

definition sq_slot :: "uring_world \<Rightarrow> nat" where
  "sq_slot w = ur_tail w mod ur_entries w"

text \<open>\<^verbatim>\<open>io_uring_submit\<close>: the kernel takes every written entry; a no-op completes at once
  with result 0, the others are in flight until the kernel completes them.\<close>

definition io_uring_submit :: "uring_world \<Rightarrow> uring_world" where
  "io_uring_submit w =
     w\<lparr>ur_sq := [],
       ur_inflight := ur_inflight w @ filter (\<lambda>s. \<not> is_nop s) (ur_sq w),
       ur_cq := ur_cq w @ map (\<lambda>s. \<lparr>cqe_res = 0, cqe_user_data = sqe_user_data s\<rparr>)
                             (filter is_nop (ur_sq w))\<rparr>"

text \<open>\<^verbatim>\<open>io_uring_event_loop::stop\<close>.\<close>

definition uring_stop :: "uring_world \<Rightarrow> uring_world" where
  "uring_stop w =
     (let w1 = w\<lparr>ur_running := False\<rparr>
      in if sq_full w1 then w1
         else io_uring_submit
                (w1\<lparr>ur_sq := ur_sq w1 @ [Sqe_nop (ur_slots w1 (sq_slot w1))],
                    ur_tail := Suc (ur_tail w1)\<rparr>))"

definition ur_call_send :: "handler \<Rightarrow> error_code \<Rightarrow> nat \<Rightarrow> uring_world \<Rightarrow> uring_world" where
  "ur_call_send h ec n w =
     (let w' = w\<lparr>ur_trace := ur_trace w @ [SendDone (hid h) ec n]\<rparr>
      in if hstop h then uring_stop w' else w')"

definition ur_call_recv ::
  "handler \<Rightarrow> error_code \<Rightarrow> nat \<Rightarrow> endpoint \<Rightarrow> uring_world \<Rightarrow> uring_world" where
  "ur_call_recv h ec n ep w =
     (let w' = w\<lparr>ur_trace := ur_trace w @ [RecvDone (hid h) ec n ep]\<rparr>
      in if hstop h then uring_stop w' else w')"

text \<open>\<^verbatim>\<open>delete this\<close>.\<close>

definition ur_delete :: "nat \<Rightarrow> uring_world \<Rightarrow> uring_world" where
  "ur_delete p w = w\<lparr>ur_heap := (ur_heap w)(p := None), ur_deleted := ur_deleted w @ [p]\<rparr>"

text \<open>\<^verbatim>\<open>send_operation::complete\<close> and \<^verbatim>\<open>receive_operation::complete\<close>, called on the
  record at address \<open>p\<close>.\<close>

definition send_complete :: "nat \<Rightarrow> send_operation \<Rightarrow> int \<Rightarrow> uring_world \<Rightarrow> uring_world" where
  "send_complete p op result w =
     (let (ec, bytes) = (if result < 0 then (error_code (- result) generic_category, 0)
                         else (no_error, nat result))
      in ur_delete p (ur_call_send (so_handler op) ec bytes w))"

definition receive_complete ::
  "nat \<Rightarrow> receive_operation \<Rightarrow> int \<Rightarrow> uring_world \<Rightarrow> uring_world" where
  "receive_complete p op result w =
     (let (ec, bytes, ep) =
            (if result < 0 then (error_code (- result) generic_category, 0, zero_endpoint)
             else (no_error, nat result,
                   if sin_family (ro_addr op) = AF_INET
                   then (endpoint_of (ro_addr op))\<lparr>sin := ro_addr op\<rparr>
                   else zero_endpoint))
      in ur_delete p (ur_call_recv (ro_handler op) ec bytes ep w))"

text \<open>The virtual call \<^verbatim>\<open>op->complete(result)\<close>; there is no record behind a dangling
  pointer.\<close>

definition uring_complete :: "nat \<Rightarrow> int \<Rightarrow> uring_world \<Rightarrow> uring_world option" where
  "uring_complete p result w =
     (case ur_heap w p of
        None \<Rightarrow> None
      | Some (Send op) \<Rightarrow> Some (send_complete p op result w)
      | Some (Recv op) \<Rightarrow> Some (receive_complete p op result w))"

text \<open>\<^verbatim>\<open>io_uring_udp_socket::async_send_to\<close>. \<^verbatim>\<open>new send_operation()\<close> zeroes the record.\<close>

definition uring_async_send_to ::
  "uring_socket \<Rightarrow> buffer \<Rightarrow> endpoint \<Rightarrow> handler \<Rightarrow> uring_world \<Rightarrow> uring_world" where
  "uring_async_send_to so data ep h w =
     (let p = ur_next w;
          op = \<lparr>so_handler = h,
                so_addr = (if sin_family (sin ep) = AF_INET then sin ep else sockaddr_of ep),
                so_addr_len = sizeof_sockaddr_in\<rparr>;
          w1 = w\<lparr>ur_heap := (ur_heap w)(p \<mapsto> Send op), ur_next := Suc p\<rparr>
      in if sq_full w1 then send_complete p op (- EBUSY) w1
         else w1\<lparr>ur_sq := ur_sq w1 @ [Sqe_sendto (ur_fd so) data p (so_addr_len op) (Some p)],
                 ur_slots := (ur_slots w1)(sq_slot w1 \<mapsto> p),
                 ur_tail := Suc (ur_tail w1)\<rparr>)"

text \<open>
  \<^verbatim>\<open>io_uring_udp_socket::async_receive_from\<close>. The constructor of \<^verbatim>\<open>receive_operation\<close>
  sets \<^verbatim>\<open>addr_len\<close> only; what the other members hold before they are assigned is the
  parameter \<open>indet\<close>.
\<close>

definition uring_async_receive_from ::
  "receive_operation \<Rightarrow> uring_socket \<Rightarrow> buffer \<Rightarrow> handler \<Rightarrow> uring_world \<Rightarrow> uring_world" where
  "uring_async_receive_from indet so data h w =
     (let p = ur_next w;
          op = indet\<lparr>ro_handler := h, ro_addr_len := sizeof_sockaddr_storage\<rparr>;
          w1 = w\<lparr>ur_heap := (ur_heap w)(p \<mapsto> Recv op), ur_next := Suc p\<rparr>
      in if sq_full w1 then receive_complete p op (- EBUSY) w1
         else
           let op1 = op\<lparr>ro_iov := data\<rparr>;
               op2 = op1\<lparr>ro_msg := zero_msghdr\<lparr>msg_name := Some p,
                           msg_namelen := ro_addr_len op1, msg_iov := Some p,
                           msg_iovlen := 1\<rparr>\<rparr>
           in w1\<lparr>ur_heap := (ur_heap w1)(p \<mapsto> Recv op2),
                 ur_sq := ur_sq w1 @ [Sqe_recvmsg (ur_fd so) p (Some p)],
                 ur_slots := (ur_slots w1)(sq_slot w1 \<mapsto> p),
                 ur_tail := Suc (ur_tail w1)\<rparr>)"

text \<open>\<^verbatim>\<open>io_uring_udp_socket::close\<close>: \<^verbatim>\<open>::close(fd_)\<close> and \<^verbatim>\<open>fd_ = -1\<close>; nothing of the ring,
  of the records or of the callbacks is touched.\<close>

definition uring_close :: "uring_socket \<Rightarrow> uring_world \<Rightarrow> uring_socket \<times> uring_world" where
  "uring_close so w = (if 0 \<le> ur_fd so then (so\<lparr>ur_fd := -1\<rparr>, w) else (so, w))"

text \<open>
  What the kernel does while the loop waits is the kernel's: \<open>KComplete i res a\<close>
  completes the \<open>i\<close>-th entry in flight with result \<open>res\<close> (for a \<^verbatim>\<open>recvmsg\<close> that
  succeeds it first stores the sender address \<open>a\<close> through \<^verbatim>\<open>msg_name\<close>, which points at
  the record's \<^verbatim>\<open>addr\<close>), and \<open>KWaitFail\<close> makes \<^verbatim>\<open>io_uring_wait_cqe\<close> fail.
\<close>

datatype ur_kernel = KComplete nat int sockaddr_in | KWaitFail

definition kernel_complete :: "nat \<Rightarrow> int \<Rightarrow> sockaddr_in \<Rightarrow> uring_world \<Rightarrow> uring_world" where
  "kernel_complete i res a w =
     (if i < length (ur_inflight w) then
        let s = ur_inflight w ! i;
            w1 = w\<lparr>ur_inflight := take i (ur_inflight w) @ drop (Suc i) (ur_inflight w)\<rparr>;
            w2 = (case s of
                    Sqe_recvmsg fd p ud \<Rightarrow>
                      (if 0 \<le> res then
                         (case ur_heap w1 p of
                            Some (Recv op) \<Rightarrow>
                              w1\<lparr>ur_heap := (ur_heap w1)(p \<mapsto> Recv (op\<lparr>ro_addr := a\<rparr>))\<rparr>
                          | _ \<Rightarrow> w1)
                       else w1)
                  | _ \<Rightarrow> w1)
        in w2\<lparr>ur_cq := ur_cq w2 @ [\<lparr>cqe_res = res, cqe_user_data = sqe_user_data s\<rparr>]\<rparr>
      else w)"

text \<open>The body of the loop after the wait: \<^verbatim>\<open>if (op) op->complete(cqe->res)\<close>.\<close>

definition uring_dispatch :: "cqe \<Rightarrow> uring_world \<Rightarrow> uring_world option" where
  "uring_dispatch c w =
     (case cqe_user_data c of None \<Rightarrow> Some w | Some p \<Rightarrow> uring_complete p (cqe_res c) w)"

definition uring_measure :: "bool \<Rightarrow> uring_world \<Rightarrow> nat" where
  "uring_measure at_wait w =
     (if \<not> at_wait \<and> \<not> ur_running w then 0
      else 2 + 2 * (length (ur_cq w) + length (ur_sq w)) - (if at_wait then 1 else 0))"

text \<open>
  \<^verbatim>\<open>io_uring_event_loop::run\<close>, from the test of \<^verbatim>\<open>running_\<close> (\<open>at_wait = False\<close>) or from
  inside \<^verbatim>\<open>io_uring_wait_cqe\<close> (\<open>at_wait = True\<close>), against the list of what the kernel
  does each time the completion queue is empty.
\<close>

function uring_go :: "bool \<Rightarrow> ur_kernel list \<Rightarrow> uring_world \<Rightarrow> run_status \<times> uring_world" where
  "uring_go at_wait script w =
     (if \<not> at_wait then
        (if ur_running w then uring_go True script (io_uring_submit w) else (Returned, w))
      else
        (case ur_cq w of
           c # cs \<Rightarrow>
             (case uring_dispatch c w of
                None \<Rightarrow> (Fault, w)
              | Some w2 \<Rightarrow> uring_go False script (w2\<lparr>ur_cq := tl (ur_cq w2)\<rparr>))
         | [] \<Rightarrow>
             (case script of
                [] \<Rightarrow> (Blocked, w)
              | KWaitFail # rest \<Rightarrow> uring_go False rest w
              | KComplete i res a # rest \<Rightarrow> uring_go True rest (kernel_complete i res a w))))"
  by pat_completeness auto

lemma io_uring_submit_length:
  "length (ur_cq (io_uring_submit w)) + length (ur_sq (io_uring_submit w))
     \<le> length (ur_cq w) + length (ur_sq w)"
  "ur_running (io_uring_submit w) = ur_running w"
  by (simp_all add: io_uring_submit_def le_trans[OF length_filter_le])

lemma uring_stop_not_running: "\<not> ur_running (uring_stop w)"
  by (simp add: uring_stop_def Let_def io_uring_submit_def)

lemma ur_call_send_queues:
  "\<not> ur_running (ur_call_send h ec n w) \<or>
   (ur_cq (ur_call_send h ec n w) = ur_cq w \<and> ur_sq (ur_call_send h ec n w) = ur_sq w)"
  by (simp add: ur_call_send_def Let_def uring_stop_not_running)

lemma ur_call_recv_queues:
  "\<not> ur_running (ur_call_recv h ec n ep w) \<or>
   (ur_cq (ur_call_recv h ec n ep w) = ur_cq w \<and> ur_sq (ur_call_recv h ec n ep w) = ur_sq w)"
  by (simp add: ur_call_recv_def Let_def uring_stop_not_running)

lemma ur_delete_queues:
  "ur_running (ur_delete p w) = ur_running w"
  "ur_cq (ur_delete p w) = ur_cq w"
  "ur_sq (ur_delete p w) = ur_sq w"
  by (simp_all add: ur_delete_def)

lemma uring_dispatch_queues:
  assumes "uring_dispatch c w = Some w2"
  shows "\<not> ur_running w2 \<or> (ur_cq w2 = ur_cq w \<and> ur_sq w2 = ur_sq w)"
  using assms ur_call_send_queues ur_call_recv_queues
  by (auto simp: uring_dispatch_def uring_complete_def send_complete_def receive_complete_def
        ur_delete_queues split: option.splits operation.splits prod.splits if_splits)

termination uring_go
  apply (relation "measures [\<lambda>(a, s, w). length s, \<lambda>(a, s, w). uring_measure a w]")
      apply simp
  subgoal for a s w using io_uring_submit_length[of w] by (simp add: uring_measure_def)
    apply (auto simp: uring_measure_def dest!: uring_dispatch_queues)
  done

declare uring_go.simps [simp del]

definition uring_run :: "ur_kernel list \<Rightarrow> uring_world \<Rightarrow> run_status \<times> uring_world" where
  "uring_run script w = uring_go False script (w\<lparr>ur_running := True\<rparr>)"

section \<open>The kernel-completion backend (IOCP)\<close>

definition WSA_IO_PENDING :: int where "WSA_IO_PENDING = 997"
definition SOCKET_ERROR :: int where "SOCKET_ERROR = -1"
definition INVALID_SOCKET :: "64 word" where "INVALID_SOCKET = NOT 0"

text \<open>\<^verbatim>\<open>iocp_udp_socket::send_operation\<close> and \<^verbatim>\<open>receive_operation\<close> (the \<^verbatim>\<open>OVERLAPPED\<close>
  base is the record's address).\<close>

record iocp_send_operation =
  is_handler :: handler
  is_wsabuf :: buffer

record iocp_receive_operation =
  ir_handler :: handler
  ir_wsabuf :: buffer
  ir_addr :: sockaddr_in
  ir_addr_len :: nat
  ir_flags :: "32 word"

datatype iocp_operation = ISend iocp_send_operation | IRecv iocp_receive_operation

text \<open>What one call of \<^verbatim>\<open>GetQueuedCompletionStatus\<close> yields: its return value, the byte
  count, the completion key and the \<^verbatim>\<open>OVERLAPPED\<close> pointer.\<close>

record packet =
  pk_ok :: bool
  pk_bytes :: nat
  pk_key :: nat
  pk_overlapped :: "nat option"

record iocp_socket =
  io_socket :: "64 word"

record iocp_world =
  io_port :: "packet list"
  io_pending :: "nat list"
  io_heap :: "nat \<rightharpoonup> iocp_operation"
  io_next :: nat
  io_deleted :: "nat list"
  io_trace :: "event list"

text \<open>\<^verbatim>\<open>iocp_event_loop::stop\<close>: \<^verbatim>\<open>PostQueuedCompletionStatus(iocp_, 0, 0, NULL)\<close>.\<close>

definition iocp_stop :: "iocp_world \<Rightarrow> iocp_world" where
  "iocp_stop w =
     w\<lparr>io_port := io_port w @ [\<lparr>pk_ok = True, pk_bytes = 0, pk_key = 0, pk_overlapped = None\<rparr>]\<rparr>"

definition io_call_send :: "handler \<Rightarrow> error_code \<Rightarrow> nat \<Rightarrow> iocp_world \<Rightarrow> iocp_world" where
  "io_call_send h ec n w =
     (let w' = w\<lparr>io_trace := io_trace w @ [SendDone (hid h) ec n]\<rparr>
      in if hstop h then iocp_stop w' else w')"

definition io_call_recv ::
  "handler \<Rightarrow> error_code \<Rightarrow> nat \<Rightarrow> endpoint \<Rightarrow> iocp_world \<Rightarrow> iocp_world" where
  "io_call_recv h ec n ep w =
     (let w' = w\<lparr>io_trace := io_trace w @ [RecvDone (hid h) ec n ep]\<rparr>
      in if hstop h then iocp_stop w' else w')"

definition io_delete :: "nat \<Rightarrow> iocp_world \<Rightarrow> iocp_world" where
  "io_delete p w = w\<lparr>io_heap := (io_heap w)(p := None), io_deleted := io_deleted w @ [p]\<rparr>"

text \<open>The two \<^verbatim>\<open>complete\<close> members. The receive one declares \<^verbatim>\<open>endpoint ep;\<close> without an
  initialiser: what it holds is the parameter \<open>indet\<close>.\<close>

definition iocp_send_complete ::
  "nat \<Rightarrow> iocp_send_operation \<Rightarrow> nat \<Rightarrow> int \<Rightarrow> iocp_world \<Rightarrow> iocp_world" where
  "iocp_send_complete p op bytes_transferred error w =
     (let ec = (if error \<noteq> 0 then error_code error system_category else no_error)
      in io_delete p (io_call_send (is_handler op) ec bytes_transferred w))"

definition iocp_receive_complete ::
  "endpoint \<Rightarrow> nat \<Rightarrow> iocp_receive_operation \<Rightarrow> nat \<Rightarrow> int \<Rightarrow> iocp_world \<Rightarrow> iocp_world" where
  "iocp_receive_complete indet p op bytes_transferred error w =
     (let ec = (if error \<noteq> 0 then error_code error system_category else no_error);
          ep = (if \<not> is_error ec \<and> sin_family (ir_addr op) = AF_INET
                then indet\<lparr>address := ntohl (sin_addr (ir_addr op)),
                           port := ntohs (sin_port (ir_addr op))\<rparr>
                else indet)
      in io_delete p (io_call_recv (ir_handler op) ec bytes_transferred ep w))"

text \<open>\<^verbatim>\<open>iocp_udp_socket::handle_completion\<close>: the virtual call through the pointer.\<close>

definition handle_completion ::
  "endpoint \<Rightarrow> nat \<Rightarrow> nat \<Rightarrow> int \<Rightarrow> iocp_world \<Rightarrow> iocp_world option" where
  "handle_completion indet p bytes_transferred error w =
     (case io_heap w p of
        None \<Rightarrow> None
      | Some (ISend op) \<Rightarrow> Some (iocp_send_complete p op bytes_transferred error w)
      | Some (IRecv op) \<Rightarrow> Some (iocp_receive_complete indet p op bytes_transferred error w))"

text \<open>
  \<^verbatim>\<open>WSASendTo\<close> and \<^verbatim>\<open>WSARecvFrom\<close> are parameters: from the socket, the buffer, the
  destination and the \<^verbatim>\<open>OVERLAPPED\<close> pointer to the return value and
  \<^verbatim>\<open>WSAGetLastError()\<close>.
\<close>

type_synonym wsasendto_fn = "64 word \<Rightarrow> buffer \<Rightarrow> sockaddr_in \<Rightarrow> nat \<Rightarrow> sys_out"

text \<open>\<^verbatim>\<open>iocp_udp_socket::async_send_to\<close> and \<^verbatim>\<open>async_receive_from\<close>; \<^verbatim>\<open>new T()\<close> zeroes
  both records before the default member initialisers run.\<close>

definition iocp_async_send_to ::
  "wsasendto_fn \<Rightarrow> iocp_socket \<Rightarrow> buffer \<Rightarrow> endpoint \<Rightarrow> handler \<Rightarrow> iocp_world \<Rightarrow> iocp_world" where
  "iocp_async_send_to wsasendto so data ep h w =
     (let p = io_next w;
          op = \<lparr>is_handler = h, is_wsabuf = data\<rparr>;
          w1 = w\<lparr>io_heap := (io_heap w)(p \<mapsto> ISend op), io_next := Suc p\<rparr>;
          r = wsasendto (io_socket so) (is_wsabuf op) (sockaddr_of ep) p
      in if sys_ret r = SOCKET_ERROR then
           (if sys_errno r \<noteq> WSA_IO_PENDING then iocp_send_complete p op 0 (sys_errno r) w1
            else w1\<lparr>io_pending := io_pending w1 @ [p]\<rparr>)
         else w1\<lparr>io_pending := io_pending w1 @ [p]\<rparr>)"


text \<open>\<^verbatim>\<open>iocp_udp_socket::close\<close>.\<close>

definition iocp_close :: "iocp_socket \<Rightarrow> iocp_socket" where
  "iocp_close so =
     (if io_socket so \<noteq> INVALID_SOCKET then so\<lparr>io_socket := INVALID_SOCKET\<rparr> else so)"

text \<open>
  An operation whose initiating call did not fail outright is the kernel's until it is
  finished (\<open>io_pending\<close>; a call that succeeds at once still has its completion queued to
  the port). The kernel finishing an operation it holds: for a receive it has stored the
  sender address in the record's \<^verbatim>\<open>addr\<close>, then it queues the packet to the port, once. A
  packet with a null \<^verbatim>\<open>OVERLAPPED\<close> names no operation and is queued as it is; a packet
  for an operation the kernel does not hold is never queued.
\<close>

datatype iocp_kernel = IoPost packet sockaddr_in

fun iocp_kernel_post :: "iocp_kernel \<Rightarrow> iocp_world \<Rightarrow> iocp_world" where
  "iocp_kernel_post (IoPost pk a) w =
     (case pk_overlapped pk of
        None \<Rightarrow> w\<lparr>io_port := io_port w @ [pk]\<rparr>
      | Some p \<Rightarrow>
          if p \<in> set (io_pending w) then
            let w1 = (case io_heap w p of
                        Some (IRecv op) \<Rightarrow>
                          w\<lparr>io_heap := (io_heap w)(p \<mapsto> IRecv (op\<lparr>ir_addr := a\<rparr>))\<rparr>
                      | _ \<Rightarrow> w)
            in w1\<lparr>io_port := io_port w1 @ [pk], io_pending := remove1 p (io_pending w1)\<rparr>
          else w)"

definition port_measure :: "packet list \<Rightarrow> nat" where
  "port_measure ps = sum_list (map (\<lambda>pk. if pk_overlapped pk = None then 1 else 2) ps)"

lemma io_call_send_port:
  "port_measure (io_port (io_call_send h ec n w)) \<le> Suc (port_measure (io_port w))"
  by (simp add: io_call_send_def iocp_stop_def port_measure_def Let_def)

lemma io_call_recv_port:
  "port_measure (io_port (io_call_recv h ec n ep w)) \<le> Suc (port_measure (io_port w))"
  by (simp add: io_call_recv_def iocp_stop_def port_measure_def Let_def)

lemma handle_completion_port:
  assumes "handle_completion indet p b e w = Some w'"
  shows "port_measure (io_port w') \<le> Suc (port_measure (io_port w))"
  using assms io_call_send_port io_call_recv_port
  by (auto simp: handle_completion_def iocp_send_complete_def iocp_receive_complete_def
        io_delete_def Let_def split: option.splits iocp_operation.splits)

text \<open>
  \<^verbatim>\<open>iocp_event_loop::run\<close>: \<^verbatim>\<open>while (GetQueuedCompletionStatus(...))\<close> with the body
  \<^verbatim>\<open>if (overlapped) handle_completion(overlapped, bytes_transferred, 0)\<close>, against the
  list of what the kernel posts each time the port is empty.
\<close>

function iocp_run ::
  "endpoint \<Rightarrow> iocp_kernel list \<Rightarrow> iocp_world \<Rightarrow> run_status \<times> iocp_world" where
  "iocp_run indet script w =
     (case io_port w of
        pk # rest \<Rightarrow>
          (if \<not> pk_ok pk then (Returned, w\<lparr>io_port := rest\<rparr>)
           else
             (case pk_overlapped pk of
                None \<Rightarrow> iocp_run indet script (w\<lparr>io_port := rest\<rparr>)
              | Some p \<Rightarrow>
                  (case handle_completion indet p (pk_bytes pk) 0 (w\<lparr>io_port := rest\<rparr>) of
                     None \<Rightarrow> (Fault, w\<lparr>io_port := rest\<rparr>)
                   | Some w' \<Rightarrow> iocp_run indet script w')))
      | [] \<Rightarrow>
          (case script of
             [] \<Rightarrow> (Blocked, w)
           | k # ks \<Rightarrow> iocp_run indet ks (iocp_kernel_post k w)))"
  by pat_completeness auto

termination iocp_run
  apply (relation "measures [\<lambda>(i, s, w). length s, \<lambda>(i, s, w). port_measure (io_port w)]")
     apply simp
    apply (simp add: port_measure_def)
   apply (auto simp: port_measure_def dest!: handle_completion_port)
  done

declare iocp_run.simps [simp del]

section \<open>Sequences of operations\<close>

text \<open>\<^verbatim>\<open>~io_uring_event_loop\<close>: \<^verbatim>\<open>io_uring_queue_exit\<close> gives the ring back, queues and all;
  the operation records are not part of it.\<close>

definition uring_loop_destroy :: "uring_world \<Rightarrow> uring_world" where
  "uring_loop_destroy w = w\<lparr>ur_sq := [], ur_inflight := [], ur_cq := []\<rparr>"

text \<open>What a program does with the ring backend, step by step.\<close>

datatype ur_action =
    UrSend uring_socket buffer endpoint handler
  | UrRecv receive_operation uring_socket buffer handler
  | UrRun "ur_kernel list"
  | UrStop
  | UrDestroy

fun ur_apply :: "ur_action \<Rightarrow> uring_world \<Rightarrow> uring_world" where
  "ur_apply (UrSend so data ep h) w = uring_async_send_to so data ep h w"
| "ur_apply (UrRecv indet so data h) w = uring_async_receive_from indet so data h w"
| "ur_apply (UrRun script) w = snd (uring_run script w)"
| "ur_apply UrStop w = uring_stop w"
| "ur_apply UrDestroy w = uring_loop_destroy w"

text \<open>
  A program is over at the first call through a dangling pointer. \<open>ur_exec\<close> gives whether
  the sequence ran to its end without one, and the world where it ended.
\<close>

fun ur_faults :: "ur_action \<Rightarrow> uring_world \<Rightarrow> bool" where
  "ur_faults (UrRun script) w = (fst (uring_run script w) = Fault)"
| "ur_faults a w = False"

fun ur_exec :: "ur_action list \<Rightarrow> uring_world \<Rightarrow> bool \<times> uring_world" where
  "ur_exec [] w = (True, w)"
| "ur_exec (a # as) w =
     (if ur_faults a w then (False, ur_apply a w) else ur_exec as (ur_apply a w))"


text \<open>
  The records of a world are in order when no record has been deleted twice, as many
  records have been deleted as callbacks have been invoked, no deleted record is still on
  the heap, and every record ever created is either on the heap or deleted.
\<close>

definition ur_records_ok :: "uring_world \<Rightarrow> bool" where
  "ur_records_ok w =
     (distinct (ur_deleted w)
      \<and> length (ur_deleted w) = length (ur_trace w)
      \<and> set (ur_deleted w) \<inter> dom (ur_heap w) = {}
      \<and> set (ur_deleted w) \<union> dom (ur_heap w) = {..<ur_next w})"


text \<open>
  The records the ring names: the user data of the entries of the completion queue, of the
  entries in flight and of the entries written but not submitted, in this order. The ring
  is linked (\<open>ur_linked\<close>) when no record is named twice and every record named is on the
  heap. The slots of the submission ring not handed out so far are fresh (\<open>ur_fresh\<close>)
  when none of them holds user data.
\<close>

definition ur_refs :: "uring_world \<Rightarrow> nat list" where
  "ur_refs w =
     List.map_filter cqe_user_data (ur_cq w)
     @ List.map_filter sqe_user_data (ur_inflight w)
     @ List.map_filter sqe_user_data (ur_sq w)"











definition io_records_ok :: "iocp_world \<Rightarrow> bool" where
  "io_records_ok w =
     (distinct (io_deleted w)
      \<and> length (io_deleted w) = length (io_trace w)
      \<and> set (io_deleted w) \<inter> dom (io_heap w) = {}
      \<and> set (io_deleted w) \<union> dom (io_heap w) = {..<io_next w})"


text \<open>The records the kernel and the port name: the operations the kernel holds and the
  \<^verbatim>\<open>OVERLAPPED\<close> pointers of the packets queued.\<close>

definition io_refs :: "iocp_world \<Rightarrow> nat list" where
  "io_refs w = io_pending w @ List.map_filter pk_overlapped (io_port w)"












definition once_ok :: "nat list \<Rightarrow> ('k \<Rightarrow> nat option) \<Rightarrow> bool" where
  "once_ok ids sl =
     (distinct ids
      \<and> (\<forall>s i. sl s = Some i \<longrightarrow> i \<notin> set ids)
      \<and> (\<forall>s s' i. sl s = Some i \<and> sl s' = Some i \<longrightarrow> s = s'))"

definition ids_used :: "nat list \<Rightarrow> ('k \<Rightarrow> nat option) \<Rightarrow> nat set" where
  "ids_used ids sl = set ids \<union> ran sl"







section \<open>The kernel's receive on a datagram socket\<close>






section \<open>Concrete worlds for evaluation\<close>

definition kq_init :: kq_world where
  "kq_init = \<lparr>pending_operations = Map.empty, global_kq = 3, kq_running = True,
              kq_registered = {}, kq_trace = []\<rparr>"

definition kq_sock :: kq_socket where
  "kq_sock = \<lparr>kq_fd = 4, kq_kq = 3\<rparr>"

definition buf5 :: buffer where
  "buf5 = \<lparr>buf_data = 0, buf_size = 5\<rparr>"

text \<open>System calls with a fixed outcome: success with a count, failure with an
  \<^verbatim>\<open>errno\<close>.\<close>

definition sendto_ret :: "int \<Rightarrow> int \<Rightarrow> sendto_fn" where
  "sendto_ret r e = (\<lambda>fd b a. \<lparr>sys_ret = r, sys_errno = e\<rparr>)"

definition recvfrom_ret :: "int \<Rightarrow> int \<Rightarrow> sockaddr_in \<Rightarrow> recvfrom_fn" where
  "recvfrom_ret r e a = (\<lambda>fd b. \<lparr>rv_ret = r, rv_errno = e, rv_addr = a\<rparr>)"

definition kevent_ret :: "int \<Rightarrow> int \<Rightarrow> kevent_fn" where
  "kevent_ret r e = (\<lambda>kq ev. \<lparr>sys_ret = r, sys_errno = e\<rparr>)"

definition handler_of :: "nat \<Rightarrow> handler" where
  "handler_of n = \<lparr>hid = n, hstop = False\<rparr>"

definition stopper :: "nat \<Rightarrow> handler" where
  "stopper n = \<lparr>hid = n, hstop = True\<rparr>"

definition indet_recv :: receive_operation where
  "indet_recv = \<lparr>ro_handler = handler_of 0, ro_addr = zero_sockaddr, ro_addr_len = 0,
                 ro_msg = zero_msghdr, ro_iov = \<lparr>buf_data = 0, buf_size = 0\<rparr>\<rparr>"

text \<open>The destination a submission entry leads the kernel to: what \<^verbatim>\<open>&op->addr\<close> points
  at.\<close>

definition sqe_destination :: "uring_world \<Rightarrow> sqe \<Rightarrow> sockaddr_in option" where
  "sqe_destination w s =
     (case s of
        Sqe_sendto fd data p len ud \<Rightarrow>
          (case ur_heap w p of Some (Send op) \<Rightarrow> Some (so_addr op) | _ \<Rightarrow> None)
      | _ \<Rightarrow> None)"

definition ur_init :: "nat \<Rightarrow> uring_world" where
  "ur_init n = \<lparr>ur_sq = [], ur_entries = n, ur_slots = (\<lambda>i. None), ur_tail = 0,
               ur_inflight = [], ur_cq = [], ur_heap = Map.empty,
               ur_next = 0, ur_deleted = [], ur_running = False, ur_trace = []\<rparr>"

definition ur_sock :: uring_socket where "ur_sock = \<lparr>ur_fd = 4\<rparr>"

definition io_init :: iocp_world where
  "io_init = \<lparr>io_port = [], io_pending = [], io_heap = Map.empty, io_next = 0,
              io_deleted = [], io_trace = []\<rparr>"

definition io_sock :: iocp_socket where "io_sock = \<lparr>io_socket = 4\<rparr>"

definition wsasendto_ret :: "int \<Rightarrow> int \<Rightarrow> wsasendto_fn" where
  "wsasendto_ret r e = (\<lambda>s b a p. \<lparr>sys_ret = r, sys_errno = e\<rparr>)"

definition done_packet :: "nat \<Rightarrow> nat \<Rightarrow> packet" where
  "done_packet p n = \<lparr>pk_ok = True, pk_bytes = n, pk_key = 0, pk_overlapped = Some p\<rparr>"

text \<open>Two sender addresses: 127.0.0.1 port 8080 in network byte order, and one of another
  family.\<close>

definition inet_addr :: sockaddr_in where
  "inet_addr = \<lparr>sin_family = AF_INET, sin_port = 0x901F, sin_addr = 0x0100007F, sin_zero = 0\<rparr>"

definition inet6_addr :: sockaddr_in where
  "inet6_addr = \<lparr>sin_family = 10, sin_port = 0x901F, sin_addr = 0, sin_zero = 0\<rparr>"

definition kq_pending_recv :: kq_world where
  "kq_pending_recv =
     kq_init\<lparr>pending_operations :=
       [4 \<mapsto> empty_pending_ops\<lparr>recv_handler := Some (handler_of 1), recv_buffer := buf5\<rparr>]\<rparr>"




section \<open>Basic facts about the readiness backend\<close>

lemma kq_call_send_fields:
  "kq_trace (kq_call_send h ec n w) = kq_trace w @ [SendDone (hid h) ec n]"
  "pending_operations (kq_call_send h ec n w) = pending_operations w"
  "kq_registered (kq_call_send h ec n w) = kq_registered w"
  "global_kq (kq_call_send h ec n w) = global_kq w"
  by (simp_all add: kq_call_send_def kqueue_stop_def Let_def)

lemma kq_call_recv_fields:
  "kq_trace (kq_call_recv h ec n ep w) = kq_trace w @ [RecvDone (hid h) ec n ep]"
  "pending_operations (kq_call_recv h ec n ep w) = pending_operations w"
  "kq_registered (kq_call_recv h ec n ep w) = kq_registered w"
  "global_kq (kq_call_recv h ec n ep w) = global_kq w"
  by (simp_all add: kq_call_recv_def kqueue_stop_def Let_def)

lemma kq_kevent_add:
  "kev_flags ev = EV_ADD OR EV_ENABLE OR EV_CLEAR \<Longrightarrow>
   kq_kevent kevent kq ev w =
     (kevent kq ev,
      if sys_ret (kevent kq ev) < 0 then w
      else w\<lparr>kq_registered := insert (kq, kev_ident ev, kev_filter ev) (kq_registered w)\<rparr>)"
  by (simp add: kq_kevent_def Let_def EV_ADD_def EV_ENABLE_def EV_CLEAR_def EV_DELETE_def)

lemma kq_kevent_delete:
  "kev_flags ev = EV_DELETE \<Longrightarrow>
   kq_kevent kevent kq ev w =
     (kevent kq ev,
      if sys_ret (kevent kq ev) < 0 then w
      else w\<lparr>kq_registered := kq_registered w - {(kq, kev_ident ev, kev_filter ev)}\<rparr>)"
  by (simp add: kq_kevent_def Let_def EV_DELETE_def)

lemma handle_ready_write_other:
  "flt \<noteq> EVFILT_WRITE \<Longrightarrow> handle_ready_write sendto kevent fd flt w = w"
  by (simp add: handle_ready_write_def split: option.splits)


lemma kq_kevent_fields:
  "kq_trace (snd (kq_kevent kevent kq ev w)) = kq_trace w"
  "pending_operations (snd (kq_kevent kevent kq ev w)) = pending_operations w"
  "global_kq (snd (kq_kevent kevent kq ev w)) = global_kq w"
  "kq_running (snd (kq_kevent kevent kq ev w)) = kq_running w"
  by (simp_all add: kq_kevent_def Let_def)

lemma handle_ready_read_trace:
  assumes "pending_operations w fd = Some ops" "recv_handler ops = Some h"
  shows "kq_trace (handle_ready_read recvfrom kevent fd EVFILT_READ w) =
     kq_trace w @
       [let r = recvfrom fd (recv_buffer ops)
        in if 0 \<le> rv_ret r
           then RecvDone (hid h) no_error (nat (rv_ret r))
                  (if sin_family (rv_addr r) = AF_INET then endpoint_of (rv_addr r) else zero_endpoint)
           else RecvDone (hid h) (error_code (rv_errno r) generic_category) 0 zero_endpoint]"
  using assms
  by (simp add: handle_ready_read_def Let_def kq_kevent_fields kq_call_recv_fields)

lemma kq_kevent_list_fields:
  "kq_trace (kq_kevent_list kevent kq evs w) = kq_trace w"
  "pending_operations (kq_kevent_list kevent kq evs w) = pending_operations w"
  "global_kq (kq_kevent_list kevent kq evs w) = global_kq w"
  "kq_running (kq_kevent_list kevent kq evs w) = kq_running w"
  by (induction evs arbitrary: w; simp add: kq_kevent_def Let_def split: prod.splits)+

lemma handle_ready_absent:
  "pending_operations w fd = None \<Longrightarrow> handle_ready sendto recvfrom kevent fd flt w = w"
  by (simp add: handle_ready_def handle_ready_write_def handle_ready_read_def)



section \<open>Basic facts about the ring backend\<close>

lemma uring_stop_full: "sq_full w \<Longrightarrow> uring_stop w = w\<lparr>ur_running := False\<rparr>"
  by (simp add: uring_stop_def sq_full_def Let_def)

lemma uring_stop_fields:
  "ur_trace (uring_stop w) = ur_trace w"
  "ur_heap (uring_stop w) = ur_heap w"
  "ur_next (uring_stop w) = ur_next w"
  "ur_deleted (uring_stop w) = ur_deleted w"
  "ur_entries (uring_stop w) = ur_entries w"
  by (simp_all add: uring_stop_def io_uring_submit_def Let_def)

lemma ur_call_send_fields:
  "ur_trace (ur_call_send h ec n w) = ur_trace w @ [SendDone (hid h) ec n]"
  "ur_heap (ur_call_send h ec n w) = ur_heap w"
  "ur_next (ur_call_send h ec n w) = ur_next w"
  "ur_deleted (ur_call_send h ec n w) = ur_deleted w"
  "ur_entries (ur_call_send h ec n w) = ur_entries w"
  by (simp_all add: ur_call_send_def Let_def uring_stop_fields)

lemma ur_call_recv_fields:
  "ur_trace (ur_call_recv h ec n ep w) = ur_trace w @ [RecvDone (hid h) ec n ep]"
  "ur_heap (ur_call_recv h ec n ep w) = ur_heap w"
  "ur_next (ur_call_recv h ec n ep w) = ur_next w"
  "ur_deleted (ur_call_recv h ec n ep w) = ur_deleted w"
  "ur_entries (ur_call_recv h ec n ep w) = ur_entries w"
  by (simp_all add: ur_call_recv_def Let_def uring_stop_fields)

lemma ur_call_full:
  "sq_full w \<Longrightarrow> ur_sq (ur_call_send h ec n w) = ur_sq w \<and> ur_cq (ur_call_send h ec n w) = ur_cq w
      \<and> ur_inflight (ur_call_send h ec n w) = ur_inflight w"
  "sq_full w \<Longrightarrow> ur_sq (ur_call_recv h ec n ep w) = ur_sq w \<and> ur_cq (ur_call_recv h ec n ep w) = ur_cq w
      \<and> ur_inflight (ur_call_recv h ec n ep w) = ur_inflight w"
  by (simp_all add: ur_call_send_def ur_call_recv_def Let_def uring_stop_full sq_full_def)





section \<open>Basic facts about the kernel-completion backend\<close>

lemma iocp_run_empty: "io_port w = [] \<Longrightarrow> iocp_run indet [] w = (Blocked, w)"
  by (subst iocp_run.simps) simp




lemma iocp_stop_blocks: "io_port w = [] \<Longrightarrow> iocp_run indet [] (iocp_stop w) = (Blocked, w)"
  by (subst iocp_run.simps) (simp add: iocp_stop_def iocp_run_empty)

section \<open>Identities invoked at most once\<close>








lemma gen_same:
  assumes "once_ok ids sl" "ids' = ids" "sl' = sl"
  shows "once_ok ids' sl' \<and> ids_used ids' sl' \<subseteq> ids_used ids sl"
  using assms unfolding once_ok_def ids_used_def by simp

section \<open>Records stay in order under the ring backend\<close>


lemma ur_call_records:
  "ur_deleted (ur_call_send h ec n w) = ur_deleted w"
  "ur_heap (ur_call_send h ec n w) = ur_heap w"
  "ur_next (ur_call_send h ec n w) = ur_next w"
  "length (ur_trace (ur_call_send h ec n w)) = Suc (length (ur_trace w))"
  "ur_deleted (ur_call_recv h ec n ep w) = ur_deleted w"
  "ur_heap (ur_call_recv h ec n ep w) = ur_heap w"
  "ur_next (ur_call_recv h ec n ep w) = ur_next w"
  "length (ur_trace (ur_call_recv h ec n ep w)) = Suc (length (ur_trace w))"
  by (simp_all add: ur_call_send_fields ur_call_recv_fields)















lemma records_queue:
  "ur_records_ok (w\<lparr>ur_sq := a, ur_slots := b, ur_tail := c\<rparr>) = ur_records_ok w"
  by (simp add: ur_records_ok_def)






section \<open>The ring names a record at most once\<close>














































section \<open>Callbacks of the ring backend are invoked at most once\<close>















section \<open>Records stay in order under the kernel-completion backend\<close>
















lemma io_records_pending: "io_records_ok (w\<lparr>io_pending := x\<rparr>) = io_records_ok w"
  by (simp add: io_records_ok_def)






section \<open>The kernel and the port name a record at most once\<close>


















section \<open>Callbacks of the kernel-completion backend are invoked at most once\<close>














section \<open>Callbacks of the readiness backend are invoked at most once\<close>






























section \<open>The immediate attempt of the readiness backend\<close>

text \<open>
  C6. Under the readiness backend \<^verbatim>\<open>async_send_to\<close> and \<^verbatim>\<open>async_receive_from\<close> first
  make the system call. When it succeeds, or fails with anything but would-block, the
  callback is invoked before the call returns, with the system call's result, and neither
  the pending table nor the kernel's interests change. Only when it would block is the
  operation stored in the table under the descriptor, and the interest for that direction
  (write for a send, read for a receive) registered; if that registration fails the
  callback is invoked with the registration's error and the stored handler is reset.
\<close>

theorem kq_immediate_attempt:
  "(let r = sendto (kq_fd so) data (sockaddr_of ep);
        k = kevent (kq_kq so) (write_interest (kq_fd so));
        w' = kq_async_send_to sendto kevent so data ep h w
    in (0 \<le> sys_ret r \<longrightarrow>
          kq_trace w' = kq_trace w @ [SendDone (hid h) no_error (nat (sys_ret r))]
          \<and> pending_operations w' = pending_operations w
          \<and> kq_registered w' = kq_registered w)
     \<and> (sys_ret r < 0 \<and> sys_errno r \<noteq> EAGAIN \<longrightarrow>
          kq_trace w' = kq_trace w @ [SendDone (hid h) (error_code (sys_errno r) generic_category) 0]
          \<and> pending_operations w' = pending_operations w
          \<and> kq_registered w' = kq_registered w)
     \<and> (sys_ret r < 0 \<and> sys_errno r = EAGAIN \<and> 0 \<le> sys_ret k \<longrightarrow>
          kq_trace w' = kq_trace w
          \<and> pending_operations w' = (pending_operations w)(kq_fd so \<mapsto>
               (pending_entry w (kq_fd so))\<lparr>send_handler := Some h, send_buffer := data, send_endpoint := ep\<rparr>)
          \<and> kq_registered w' = insert (kq_kq so, kq_fd so, EVFILT_WRITE) (kq_registered w))
     \<and> (sys_ret r < 0 \<and> sys_errno r = EAGAIN \<and> sys_ret k < 0 \<longrightarrow>
          kq_trace w' = kq_trace w @ [SendDone (hid h) (error_code (sys_errno k) generic_category) 0]
          \<and> pending_operations w' = (pending_operations w)(kq_fd so \<mapsto>
               (pending_entry w (kq_fd so))\<lparr>send_handler := None, send_buffer := data, send_endpoint := ep\<rparr>)
          \<and> kq_registered w' = kq_registered w))
  \<and> (let r = recvfrom (kq_fd so) rdata;
        k = kevent (kq_kq so) (read_interest (kq_fd so));
        w' = kq_async_receive_from recvfrom kevent so rdata h w
    in (0 \<le> rv_ret r \<longrightarrow>
          kq_trace w' = kq_trace w @ [RecvDone (hid h) no_error (nat (rv_ret r))
               (if sin_family (rv_addr r) = AF_INET then endpoint_of (rv_addr r) else zero_endpoint)]
          \<and> pending_operations w' = pending_operations w
          \<and> kq_registered w' = kq_registered w)
     \<and> (rv_ret r < 0 \<and> rv_errno r \<noteq> EAGAIN \<longrightarrow>
          kq_trace w' = kq_trace w @ [RecvDone (hid h) (error_code (rv_errno r) generic_category) 0 zero_endpoint]
          \<and> pending_operations w' = pending_operations w
          \<and> kq_registered w' = kq_registered w)
     \<and> (rv_ret r < 0 \<and> rv_errno r = EAGAIN \<and> 0 \<le> sys_ret k \<longrightarrow>
          kq_trace w' = kq_trace w
          \<and> pending_operations w' = (pending_operations w)(kq_fd so \<mapsto>
               (pending_entry w (kq_fd so))\<lparr>recv_handler := Some h, recv_buffer := rdata\<rparr>)
          \<and> kq_registered w' = insert (kq_kq so, kq_fd so, EVFILT_READ) (kq_registered w))
     \<and> (rv_ret r < 0 \<and> rv_errno r = EAGAIN \<and> sys_ret k < 0 \<longrightarrow>
          kq_trace w' = kq_trace w @ [RecvDone (hid h) (error_code (sys_errno k) generic_category) 0 zero_endpoint]
          \<and> pending_operations w' = (pending_operations w)(kq_fd so \<mapsto>
               (pending_entry w (kq_fd so))\<lparr>recv_handler := None, recv_buffer := rdata\<rparr>)
          \<and> kq_registered w' = kq_registered w))"
  by (auto simp add: kq_async_send_to_def kq_async_receive_from_def Let_def kq_call_send_fields kq_call_recv_fields
      kq_kevent_add write_interest_def read_interest_def EWOULDBLOCK_def)

theorem kq_immediate_attempt_witness:
  "kq_trace (kq_async_send_to (sendto_ret 5 0) (kevent_ret 0 0) kq_sock buf5 zero_endpoint
       (handler_of 1) kq_init)
     = [SendDone 1 no_error 5]
   \<and> kq_trace (kq_async_send_to (sendto_ret (-1) 54) (kevent_ret 0 0) kq_sock buf5 zero_endpoint
       (handler_of 1) kq_init)
     = [SendDone 1 (error_code 54 generic_category) 0]
   \<and> kq_registered (kq_async_send_to (sendto_ret (-1) EAGAIN) (kevent_ret 0 0) kq_sock buf5
       zero_endpoint (handler_of 1) kq_init)
     = {(3, 4, EVFILT_WRITE)}
   \<and> kq_trace (kq_async_send_to (sendto_ret (-1) EAGAIN) (kevent_ret (-1) 12) kq_sock buf5
       zero_endpoint (handler_of 1) kq_init)
     = [SendDone 1 (error_code 12 generic_category) 0]
   \<and> kq_trace (kq_async_receive_from (recvfrom_ret 5 0 zero_sockaddr) (kevent_ret 0 0) kq_sock
       buf5 (handler_of 1) kq_init)
     = [RecvDone 1 no_error 5 zero_endpoint]
   \<and> kq_trace (kq_async_receive_from (recvfrom_ret (-1) 54 zero_sockaddr) (kevent_ret 0 0)
       kq_sock buf5 (handler_of 1) kq_init)
     = [RecvDone 1 (error_code 54 generic_category) 0 zero_endpoint]
   \<and> kq_registered (kq_async_receive_from (recvfrom_ret (-1) EAGAIN zero_sockaddr)
       (kevent_ret 0 0) kq_sock buf5 (handler_of 1) kq_init)
     = {(3, 4, EVFILT_READ)}
   \<and> kq_trace (kq_async_receive_from (recvfrom_ret (-1) EAGAIN zero_sockaddr)
       (kevent_ret (-1) 12) kq_sock buf5 (handler_of 1) kq_init)
     = [RecvDone 1 (error_code 12 generic_category) 0 zero_endpoint]"
  using kq_immediate_attempt [where sendto = "sendto_ret 5 0" and so = kq_sock and data = buf5
      and ep = zero_endpoint and kevent = "kevent_ret 0 0" and h = "handler_of 1" and w = kq_init
      and recvfrom = "recvfrom_ret 5 0 zero_sockaddr" and rdata = buf5]
    kq_immediate_attempt [where sendto = "sendto_ret (-1) 54" and so = kq_sock and data = buf5
      and ep = zero_endpoint and kevent = "kevent_ret 0 0" and h = "handler_of 1" and w = kq_init
      and recvfrom = "recvfrom_ret (-1) 54 zero_sockaddr" and rdata = buf5]
    kq_immediate_attempt [where sendto = "sendto_ret (-1) EAGAIN" and so = kq_sock and data = buf5
      and ep = zero_endpoint and kevent = "kevent_ret 0 0" and h = "handler_of 1" and w = kq_init
      and recvfrom = "recvfrom_ret (-1) EAGAIN zero_sockaddr" and rdata = buf5]
    kq_immediate_attempt [where sendto = "sendto_ret (-1) EAGAIN" and so = kq_sock and data = buf5
      and ep = zero_endpoint and kevent = "kevent_ret (-1) 12" and h = "handler_of 1" and w = kq_init
      and recvfrom = "recvfrom_ret (-1) EAGAIN zero_sockaddr" and rdata = buf5]
  by (simp add: Let_def sendto_ret_def recvfrom_ret_def kevent_ret_def kq_sock_def
        kq_init_def handler_of_def EAGAIN_def zero_sockaddr_def AF_INET_def)

section \<open>A full submission queue\<close>

text \<open>
  C5 as the specification states it: when the submission queue is full the operation is
  retried by resubmitting, and the condition is not delivered to the callback as a
  terminal error. On a ring of one entry the second of two sends finds the queue full:
  its callback is invoked at once with \<^verbatim>\<open>EBUSY\<close>, its record is deleted, and the queue
  holds the first send only.
\<close>

theorem ring_full_counterexample:
  "sq_full (uring_async_send_to ur_sock buf5 zero_endpoint (handler_of 1) (ur_init 1))
   \<and> ur_trace (uring_async_send_to ur_sock buf5 zero_endpoint (handler_of 2)
        (uring_async_send_to ur_sock buf5 zero_endpoint (handler_of 1) (ur_init 1)))
     = [SendDone 2 (error_code EBUSY generic_category) 0]
   \<and> ur_sq (uring_async_send_to ur_sock buf5 zero_endpoint (handler_of 2)
        (uring_async_send_to ur_sock buf5 zero_endpoint (handler_of 1) (ur_init 1)))
     = [Sqe_sendto 4 buf5 0 16 (Some 0)]
   \<and> ur_heap (uring_async_send_to ur_sock buf5 zero_endpoint (handler_of 2)
        (uring_async_send_to ur_sock buf5 zero_endpoint (handler_of 1) (ur_init 1))) 1 = None"
  by (simp add: uring_async_send_to_def Let_def send_complete_def ur_delete_def ur_call_send_def
      sq_full_def ur_init_def ur_sock_def handler_of_def zero_endpoint_def zero_sockaddr_def AF_INET_def
      sizeof_sockaddr_in_def EBUSY_def)

text \<open>
  C5, amended. Under the ring backend, when the submission queue is full at the time
  \<^verbatim>\<open>async_send_to\<close> or \<^verbatim>\<open>async_receive_from\<close> is issued, the operation is not queued and
  not retried: its callback is invoked synchronously, once, with the error \<^verbatim>\<open>EBUSY\<close> in
  the generic category and zero bytes (and the zero endpoint for a receive), its record is
  deleted, and the submission queue, the entries in flight and the completion queue are
  left as they were.
\<close>

theorem ring_full_completes_busy:
  "sq_full w \<Longrightarrow>
   (let w' = uring_async_send_to so data ep h w
    in ur_trace w' = ur_trace w @ [SendDone (hid h) (error_code EBUSY generic_category) 0]
       \<and> ur_sq w' = ur_sq w \<and> ur_inflight w' = ur_inflight w \<and> ur_cq w' = ur_cq w
       \<and> ur_heap w' = (ur_heap w)(ur_next w := None)
       \<and> ur_deleted w' = ur_deleted w @ [ur_next w])
   \<and> (let w' = uring_async_receive_from indet so rdata h w
    in ur_trace w' = ur_trace w @ [RecvDone (hid h) (error_code EBUSY generic_category) 0 zero_endpoint]
       \<and> ur_sq w' = ur_sq w \<and> ur_inflight w' = ur_inflight w \<and> ur_cq w' = ur_cq w
       \<and> ur_heap w' = (ur_heap w)(ur_next w := None)
       \<and> ur_deleted w' = ur_deleted w @ [ur_next w])"
  by (simp add: uring_async_send_to_def uring_async_receive_from_def Let_def send_complete_def
      receive_complete_def ur_delete_def ur_call_send_fields ur_call_recv_fields ur_call_full sq_full_def EBUSY_def)

theorem ring_full_completes_busy_witness:
  "ur_trace (uring_async_receive_from indet_recv ur_sock buf5 (handler_of 2)
        (uring_async_send_to ur_sock buf5 zero_endpoint (handler_of 1) (ur_init 1)))
     = [RecvDone 2 (error_code EBUSY generic_category) 0 zero_endpoint]"
  using ring_full_completes_busy [of "uring_async_send_to ur_sock buf5 zero_endpoint (handler_of 1) (ur_init 1)"
     ur_sock buf5 zero_endpoint "handler_of 2"
     indet_recv buf5]
  by (simp add: uring_async_send_to_def Let_def sq_full_def ur_init_def handler_of_def)

section \<open>The destination of a send under the ring backend\<close>

lemma byte_order_port: "htons 0x1F90 = 0x901F"
  by code_simp

lemma byte_order_address: "htonl 0x7F000001 = 0x0100007F"
  by code_simp

text \<open>
  C9. Under the ring backend, \<^verbatim>\<open>async_send_to\<close> with room in the submission queue
  queues one send entry. When the endpoint's embedded \<^verbatim>\<open>sockaddr_in\<close> has family
  \<^verbatim>\<open>AF_INET\<close>, the destination of the entry is that storage, and the numeric fields are
  ignored: changing them changes nothing of what the call does. Only when the storage has
  another family is the destination built from the numeric fields: family \<^verbatim>\<open>AF_INET\<close>, the
  port and the address in network byte order (port 8080 becomes \<open>0x901F\<close>, address
  127.0.0.1 becomes \<open>0x0100007F\<close> on the little-endian host), and zero padding.
\<close>

theorem ring_send_destination:
  "(\<not> sq_full w \<longrightarrow>
     (let w' = uring_async_send_to so data ep h w
      in ur_sq w' = ur_sq w @ [Sqe_sendto (ur_fd so) data (ur_next w) sizeof_sockaddr_in (Some (ur_next w))]
         \<and> (sin_family (sin ep) = AF_INET \<longrightarrow>
               sqe_destination w' (last (ur_sq w')) = Some (sin ep))
         \<and> (sin_family (sin ep) \<noteq> AF_INET \<longrightarrow>
               sqe_destination w' (last (ur_sq w'))
                 = Some \<lparr>sin_family = AF_INET, sin_port = htons (port ep),
                         sin_addr = htonl (address ep), sin_zero = 0\<rparr>)))
   \<and> (sin_family (sin ep) = AF_INET \<longrightarrow>
        uring_async_send_to so data (ep\<lparr>address := a, port := p\<rparr>) h w
          = uring_async_send_to so data ep h w)
   \<and> htons 0x1F90 = 0x901F
   \<and> htonl 0x7F000001 = 0x0100007F"
  by (simp add: uring_async_send_to_def Let_def sq_full_def sqe_destination_def sockaddr_of_def
        byte_order_port byte_order_address)

theorem ring_send_destination_witness:
  "sqe_destination
     (uring_async_send_to ur_sock buf5
        \<lparr>address = 1, port = 2,
         sin = \<lparr>sin_family = AF_INET, sin_port = 7, sin_addr = 9, sin_zero = 0\<rparr>\<rparr>
        (handler_of 1) (ur_init 4))
     (Sqe_sendto 4 buf5 0 16 (Some 0))
     = Some \<lparr>sin_family = AF_INET, sin_port = 7, sin_addr = 9, sin_zero = 0\<rparr>
   \<and> uring_async_send_to ur_sock buf5
        \<lparr>address = 1, port = 2,
         sin = \<lparr>sin_family = AF_INET, sin_port = 7, sin_addr = 9, sin_zero = 0\<rparr>\<rparr>
        (handler_of 1) (ur_init 4)
     = uring_async_send_to ur_sock buf5
        \<lparr>address = 0, port = 0,
         sin = \<lparr>sin_family = AF_INET, sin_port = 7, sin_addr = 9, sin_zero = 0\<rparr>\<rparr>
        (handler_of 1) (ur_init 4)
   \<and> sqe_destination
        (uring_async_send_to ur_sock buf5
           \<lparr>address = 0x7F000001, port = 0x1F90, sin = zero_sockaddr\<rparr>
           (handler_of 1) (ur_init 4))
        (Sqe_sendto 4 buf5 0 16 (Some 0))
     = Some \<lparr>sin_family = 2, sin_port = 0x901F, sin_addr = 0x0100007F, sin_zero = 0\<rparr>"
  using ring_send_destination [where w = "ur_init 4" and so = ur_sock and data = buf5
      and ep = "\<lparr>address = 0, port = 0,
        sin = \<lparr>sin_family = AF_INET, sin_port = 7, sin_addr = 9, sin_zero = 0\<rparr>\<rparr>"
      and h = "handler_of 1" and a = 1 and p = 2]
    ring_send_destination [where w = "ur_init 4" and so = ur_sock and data = buf5
      and ep = "\<lparr>address = 0x7F000001, port = 0x1F90, sin = zero_sockaddr\<rparr>"
      and h = "handler_of 1" and a = 0 and p = 0]
  by (simp add: Let_def sq_full_def ur_init_def ur_sock_def sizeof_sockaddr_in_def
        zero_sockaddr_def AF_INET_def uring_async_send_to_def sqe_destination_def)

section \<open>The source endpoint of a receive\<close>

text \<open>
  C10. Under the ring and readiness backends, a receive that completed with an error, or
  whose sender address has a family other than \<^verbatim>\<open>AF_INET\<close>, hands the callback the
  zero-initialised endpoint; the address and the port are filled (from the sender's
  \<^verbatim>\<open>sockaddr_in\<close>, converted to host byte order) only on success from an \<^verbatim>\<open>AF_INET\<close>
  sender. This holds for the ring's \<^verbatim>\<open>receive_operation::complete\<close>, for the immediate
  attempt of the readiness backend and for its dispatch on read readiness.
\<close>

theorem receive_source_endpoint:
  "(let w' = receive_complete p op result uw
    in ((result < 0 \<or> sin_family (ro_addr op) \<noteq> AF_INET) \<longrightarrow>
          ur_trace w' = ur_trace uw @
            [RecvDone (hid (ro_handler op))
               (if result < 0 then error_code (- result) generic_category else no_error)
               (if result < 0 then 0 else nat result) zero_endpoint])
     \<and> (0 \<le> result \<and> sin_family (ro_addr op) = AF_INET \<longrightarrow>
          ur_trace w' = ur_trace uw @
            [RecvDone (hid (ro_handler op)) no_error (nat result)
               \<lparr>address = ntohl (sin_addr (ro_addr op)), port = ntohs (sin_port (ro_addr op)),
                sin = ro_addr op\<rparr>]))
   \<and> (let r = recvfrom (kq_fd so) data;
          w' = kq_async_receive_from recvfrom kevent so data h w
      in (0 \<le> rv_ret r \<and> sin_family (rv_addr r) \<noteq> AF_INET \<longrightarrow>
            kq_trace w' = kq_trace w @ [RecvDone (hid h) no_error (nat (rv_ret r)) zero_endpoint])
       \<and> (rv_ret r < 0 \<longrightarrow>
            kq_trace w' = kq_trace w \<or>
            (\<exists>ec. kq_trace w' = kq_trace w @ [RecvDone (hid h) ec 0 zero_endpoint]))
       \<and> (0 \<le> rv_ret r \<and> sin_family (rv_addr r) = AF_INET \<longrightarrow>
            kq_trace w' = kq_trace w @
              [RecvDone (hid h) no_error (nat (rv_ret r))
                 \<lparr>address = ntohl (sin_addr (rv_addr r)), port = ntohs (sin_port (rv_addr r)),
                  sin = zero_sockaddr\<rparr>]))
   \<and> (pending_operations w fd = Some ops \<and> recv_handler ops = Some h \<longrightarrow>
        (let r = recvfrom fd (recv_buffer ops);
             w' = handle_ready sendto recvfrom kevent fd EVFILT_READ w
         in ((rv_ret r < 0 \<or> sin_family (rv_addr r) \<noteq> AF_INET) \<longrightarrow>
               kq_trace w' = kq_trace w @
                 [RecvDone (hid h)
                    (if rv_ret r < 0 then error_code (rv_errno r) generic_category else no_error)
                    (if rv_ret r < 0 then 0 else nat (rv_ret r)) zero_endpoint])
          \<and> (0 \<le> rv_ret r \<and> sin_family (rv_addr r) = AF_INET \<longrightarrow>
               kq_trace w' = kq_trace w @
                 [RecvDone (hid h) no_error (nat (rv_ret r))
                    \<lparr>address = ntohl (sin_addr (rv_addr r)),
                     port = ntohs (sin_port (rv_addr r)), sin = zero_sockaddr\<rparr>])))"
proof (intro conjI)
  show "let w' = receive_complete p op result uw
    in ((result < 0 \<or> sin_family (ro_addr op) \<noteq> AF_INET) \<longrightarrow>
          ur_trace w' = ur_trace uw @
            [RecvDone (hid (ro_handler op))
               (if result < 0 then error_code (- result) generic_category else no_error)
               (if result < 0 then 0 else nat result) zero_endpoint])
     \<and> (0 \<le> result \<and> sin_family (ro_addr op) = AF_INET \<longrightarrow>
          ur_trace w' = ur_trace uw @
            [RecvDone (hid (ro_handler op)) no_error (nat result)
               \<lparr>address = ntohl (sin_addr (ro_addr op)), port = ntohs (sin_port (ro_addr op)),
                sin = ro_addr op\<rparr>])"
    by (simp add: receive_complete_def Let_def ur_delete_def ur_call_recv_def uring_stop_def
          io_uring_submit_def endpoint_of_def zero_endpoint_def)
next
  show "let r = recvfrom (kq_fd so) data;
          w' = kq_async_receive_from recvfrom kevent so data h w
      in (0 \<le> rv_ret r \<and> sin_family (rv_addr r) \<noteq> AF_INET \<longrightarrow>
            kq_trace w' = kq_trace w @ [RecvDone (hid h) no_error (nat (rv_ret r)) zero_endpoint])
       \<and> (rv_ret r < 0 \<longrightarrow>
            kq_trace w' = kq_trace w \<or>
            (\<exists>ec. kq_trace w' = kq_trace w @ [RecvDone (hid h) ec 0 zero_endpoint]))
       \<and> (0 \<le> rv_ret r \<and> sin_family (rv_addr r) = AF_INET \<longrightarrow>
            kq_trace w' = kq_trace w @
              [RecvDone (hid h) no_error (nat (rv_ret r))
                 \<lparr>address = ntohl (sin_addr (rv_addr r)), port = ntohs (sin_port (rv_addr r)),
                  sin = zero_sockaddr\<rparr>])"
    by (auto simp add: kq_async_receive_from_def Let_def kq_call_recv_fields kq_kevent_add
          read_interest_def endpoint_of_def zero_endpoint_def)
next
  show "pending_operations w fd = Some ops \<and> recv_handler ops = Some h \<longrightarrow>
        (let r = recvfrom fd (recv_buffer ops);
             w' = handle_ready sendto recvfrom kevent fd EVFILT_READ w
         in ((rv_ret r < 0 \<or> sin_family (rv_addr r) \<noteq> AF_INET) \<longrightarrow>
               kq_trace w' = kq_trace w @
                 [RecvDone (hid h)
                    (if rv_ret r < 0 then error_code (rv_errno r) generic_category else no_error)
                    (if rv_ret r < 0 then 0 else nat (rv_ret r)) zero_endpoint])
          \<and> (0 \<le> rv_ret r \<and> sin_family (rv_addr r) = AF_INET \<longrightarrow>
               kq_trace w' = kq_trace w @
                 [RecvDone (hid h) no_error (nat (rv_ret r))
                    \<lparr>address = ntohl (sin_addr (rv_addr r)),
                     port = ntohs (sin_port (rv_addr r)), sin = zero_sockaddr\<rparr>]))"
    by (auto simp add: handle_ready_def handle_ready_write_other EVFILT_READ_def EVFILT_WRITE_def
          handle_ready_read_trace[unfolded EVFILT_READ_def] Let_def endpoint_of_def zero_endpoint_def)
qed

theorem receive_source_endpoint_witness:
  "ur_trace (receive_complete 0 (indet_recv\<lparr>ro_addr := inet6_addr\<rparr>) 5 (ur_init 4))
     = [RecvDone 0 no_error 5 zero_endpoint]
   \<and> ur_trace (receive_complete 0 (indet_recv\<lparr>ro_addr := inet_addr\<rparr>) 5 (ur_init 4))
     = [RecvDone 0 no_error 5 \<lparr>address = 0x7F000001, port = 0x1F90, sin = inet_addr\<rparr>]
   \<and> kq_trace (kq_async_receive_from (recvfrom_ret (-1) 54 inet_addr) (kevent_ret 0 0)
        kq_sock buf5 (handler_of 2) kq_init)
     = [RecvDone 2 (error_code 54 generic_category) 0 zero_endpoint]
   \<and> kq_trace (kq_async_receive_from (recvfrom_ret 5 0 inet6_addr) (kevent_ret 0 0)
        kq_sock buf5 (handler_of 2) kq_init)
     = [RecvDone 2 no_error 5 zero_endpoint]
   \<and> kq_trace (kq_async_receive_from (recvfrom_ret 5 0 inet_addr) (kevent_ret 0 0)
        kq_sock buf5 (handler_of 2) kq_init)
     = [RecvDone 2 no_error 5 \<lparr>address = 0x7F000001, port = 0x1F90, sin = zero_sockaddr\<rparr>]
   \<and> kq_trace (handle_ready (sendto_ret 0 0) (recvfrom_ret 5 0 inet6_addr) (kevent_ret 0 0) 4
        EVFILT_READ kq_pending_recv)
     = [RecvDone 1 no_error 5 zero_endpoint]
   \<and> kq_trace (handle_ready (sendto_ret 0 0) (recvfrom_ret 5 0 inet_addr) (kevent_ret 0 0) 4
        EVFILT_READ kq_pending_recv)
     = [RecvDone 1 no_error 5 \<lparr>address = 0x7F000001, port = 0x1F90, sin = zero_sockaddr\<rparr>]"
proof -
  have p: "pending_operations kq_pending_recv 4
             = Some (empty_pending_ops\<lparr>recv_handler := Some (handler_of 1), recv_buffer := buf5\<rparr>)"
    and t: "kq_trace kq_pending_recv = []"
    by (simp_all add: kq_pending_recv_def kq_init_def)
  have n: "ntohl 0x0100007F = 0x7F000001" "ntohs 0x901F = 0x1F90"
    by (simp_all add: ntohl_def htonl_def ntohs_def htons_def)
  show ?thesis
    using receive_source_endpoint [where p = 0 and op = "indet_recv\<lparr>ro_addr := inet6_addr\<rparr>"
        and result = 5 and uw = "ur_init 4" and recvfrom = "recvfrom_ret (-1) 54 inet_addr"
        and so = kq_sock and data = buf5 and kevent = "kevent_ret 0 0"
        and h = "handler_of 2" and w = kq_init]
      receive_source_endpoint [where p = 0 and op = "indet_recv\<lparr>ro_addr := inet_addr\<rparr>"
        and result = 5 and uw = "ur_init 4" and recvfrom = "recvfrom_ret 5 0 inet6_addr"
        and so = kq_sock and data = buf5 and kevent = "kevent_ret 0 0"
        and h = "handler_of 2" and w = kq_init]
      receive_source_endpoint [where p = 0 and op = "indet_recv\<lparr>ro_addr := inet_addr\<rparr>"
        and result = 5 and uw = "ur_init 4" and recvfrom = "recvfrom_ret 5 0 inet_addr"
        and so = kq_sock and data = buf5 and kevent = "kevent_ret 0 0"
        and h = "handler_of 2" and w = kq_init]
      receive_source_endpoint [where p = 0 and op = "indet_recv\<lparr>ro_addr := inet_addr\<rparr>"
        and result = 5 and uw = "ur_init 4" and recvfrom = "recvfrom_ret 5 0 inet6_addr"
        and so = kq_sock and data = buf5 and kevent = "kevent_ret 0 0"
        and h = "handler_of 1" and w = kq_pending_recv and fd = 4 and sendto = "sendto_ret 0 0"
        and ops = "empty_pending_ops\<lparr>recv_handler := Some (handler_of 1), recv_buffer := buf5\<rparr>"]
      receive_source_endpoint [where p = 0 and op = "indet_recv\<lparr>ro_addr := inet_addr\<rparr>"
        and result = 5 and uw = "ur_init 4" and recvfrom = "recvfrom_ret 5 0 inet_addr"
        and so = kq_sock and data = buf5 and kevent = "kevent_ret 0 0"
        and h = "handler_of 1" and w = kq_pending_recv and fd = 4 and sendto = "sendto_ret 0 0"
        and ops = "empty_pending_ops\<lparr>recv_handler := Some (handler_of 1), recv_buffer := buf5\<rparr>"]
      p t n
    by (simp add: Let_def indet_recv_def ur_init_def handler_of_def AF_INET_def inet_addr_def
          inet6_addr_def recvfrom_ret_def kevent_ret_def kq_init_def EAGAIN_def EWOULDBLOCK_def
          kq_async_receive_from_def kq_call_recv_def endpoint_of_def zero_endpoint_def)
qed

section \<open>Stopping a loop\<close>

text \<open>
  C3. After \<^verbatim>\<open>stop()\<close>, also from a handler running on the loop thread, a thread blocked
  in the wait call of \<^verbatim>\<open>run()\<close> is woken and \<^verbatim>\<open>run()\<close> returns. The code does otherwise,
  evaluated here. Kernel-completion backend: \<^verbatim>\<open>stop()\<close> posts a packet with a null
  \<^verbatim>\<open>OVERLAPPED\<close>; \<^verbatim>\<open>run()\<close> takes it, skips it and waits again, on a port that is empty;
  and when a handler calls \<^verbatim>\<open>stop()\<close> the handler's completion is dispatched and the loop
  waits again all the same. Readiness backend: \<^verbatim>\<open>stop()\<close> only clears \<^verbatim>\<open>running_\<close>, and a
  thread inside \<^verbatim>\<open>kevent\<close> stays there. The ring backend does what the claim says: with
  \<^verbatim>\<open>stop()\<close> called by a handler, or while the thread is inside the wait, \<^verbatim>\<open>run()\<close>
  returns.
\<close>

theorem stop_leaves_run_blocked:
  "fst (iocp_run zero_endpoint [] (iocp_stop io_init)) = Blocked
   \<and> io_port (snd (iocp_run zero_endpoint [] (iocp_stop io_init))) = []
   \<and> fst (iocp_run zero_endpoint [IoPost (done_packet 0 5) zero_sockaddr]
        (iocp_async_send_to (wsasendto_ret (-1) WSA_IO_PENDING) io_sock buf5 zero_endpoint
           (stopper 1) io_init)) = Blocked
   \<and> io_trace (snd (iocp_run zero_endpoint [IoPost (done_packet 0 5) zero_sockaddr]
        (iocp_async_send_to (wsasendto_ret (-1) WSA_IO_PENDING) io_sock buf5 zero_endpoint
           (stopper 1) io_init))) = [SendDone 1 no_error 5]
   \<and> fst (kq_from_wait [] (kqueue_stop kq_init)) = Blocked
   \<and> \<not> kq_running (snd (kq_from_wait [] (kqueue_stop kq_init)))
   \<and> fst (uring_run [KComplete 0 5 zero_sockaddr]
        (uring_async_send_to ur_sock buf5 zero_endpoint (stopper 1) (ur_init 4))) = Returned
   \<and> fst (uring_go True [] (uring_stop ((ur_init 4)\<lparr>ur_running := True\<rparr>))) = Returned"
  by code_simp

section \<open>Would-block on the readiness dispatch\<close>

text \<open>
  C4. A would-block error is never delivered to a callback. The immediate attempt keeps
  to this; the dispatch on readiness does not look at \<^verbatim>\<open>errno\<close>: a send that was
  registered after \<^verbatim>\<open>EAGAIN\<close> and meets \<^verbatim>\<open>EAGAIN\<close> again when its descriptor is reported
  writable has its callback invoked with that error.
\<close>

theorem would_block_delivered_on_readiness:
  "kq_trace (kq_async_send_to (sendto_ret (-1) EAGAIN) (kevent_ret 0 0) kq_sock buf5
       zero_endpoint (handler_of 1) kq_init) = []
   \<and> kq_trace (handle_ready (sendto_ret (-1) EAGAIN) (recvfrom_ret (-1) EAGAIN zero_sockaddr)
        (kevent_ret 0 0) 4 EVFILT_WRITE
        (kq_async_send_to (sendto_ret (-1) EAGAIN) (kevent_ret 0 0) kq_sock buf5
           zero_endpoint (handler_of 1) kq_init))
     = [SendDone 1 (error_code EAGAIN generic_category) 0]"
  by code_simp

section \<open>Truncation of a datagram\<close>



section \<open>Closing a socket with an operation pending\<close>

text \<open>
  C1 as the specification states it: \<^verbatim>\<open>close()\<close> on a socket with an operation still
  registered has that operation's callback invoked once, with a cancellation error.
  Under the readiness backend a receive that is registered (its handler sits in the
  table) and then closed is never completed: \<^verbatim>\<open>close()\<close> invokes nothing, the table entry
  is gone, and a later read readiness of the descriptor finds nothing to invoke.
\<close>

theorem close_skips_callback:
  "recv_handler (pending_entry
       (kq_async_receive_from (recvfrom_ret (-1) EAGAIN zero_sockaddr) (kevent_ret 0 0)
          kq_sock buf5 (handler_of 1) kq_init) 4) = Some (handler_of 1)
   \<and> kq_trace (snd (kq_close (kevent_ret 0 0) kq_sock
        (kq_async_receive_from (recvfrom_ret (-1) EAGAIN zero_sockaddr) (kevent_ret 0 0)
           kq_sock buf5 (handler_of 1) kq_init))) = []
   \<and> pending_operations (snd (kq_close (kevent_ret 0 0) kq_sock
        (kq_async_receive_from (recvfrom_ret (-1) EAGAIN zero_sockaddr) (kevent_ret 0 0)
           kq_sock buf5 (handler_of 1) kq_init))) 4 = None
   \<and> kq_trace (handle_ready (sendto_ret 5 0) (recvfrom_ret 5 0 zero_sockaddr) (kevent_ret 0 0)
        4 EVFILT_READ
        (snd (kq_close (kevent_ret 0 0) kq_sock
          (kq_async_receive_from (recvfrom_ret (-1) EAGAIN zero_sockaddr) (kevent_ret 0 0)
             kq_sock buf5 (handler_of 1) kq_init)))) = []"
  by code_simp

text \<open>
  C1, amended. Under the readiness backend, \<^verbatim>\<open>close()\<close> on an open socket invokes no
  callback: it erases the descriptor's entry of the pending table, so that the callbacks
  of the operations registered for it are destroyed without being invoked, and sets the
  descriptor to \<open>-1\<close>; a later readiness event for that descriptor changes nothing, and a
  second \<^verbatim>\<open>close()\<close> is a no-op. Under the ring backend \<^verbatim>\<open>close()\<close> on an open socket
  sets the descriptor to \<open>-1\<close> and changes nothing else: no callback is invoked, and no
  operation record and no entry of the ring is touched; a second \<^verbatim>\<open>close()\<close> is a no-op
  there too.
\<close>

theorem close_drops_pending:
  "(0 \<le> kq_fd so \<longrightarrow>
      (let so' = fst (kq_close kevent so w); w' = snd (kq_close kevent so w)
       in kq_trace w' = kq_trace w
          \<and> pending_operations w' = (pending_operations w)(kq_fd so := None)
          \<and> kq_fd so' = -1
          \<and> handle_ready sendto recvfrom kevent' (kq_fd so) flt w' = w'
          \<and> kq_close kevent' so' w' = (so', w')))
   \<and> (0 \<le> ur_fd uso \<longrightarrow>
        (let uso' = fst (uring_close uso uw); uw' = snd (uring_close uso uw)
         in ur_fd uso' = -1
            \<and> uw' = uw
            \<and> ur_trace uw' = ur_trace uw
            \<and> ur_heap uw' = ur_heap uw
            \<and> ur_deleted uw' = ur_deleted uw
            \<and> ur_refs uw' = ur_refs uw
            \<and> uring_close uso' uw' = (uso', uw')))"
  by (auto simp add: kq_close_def Let_def sys_close_def kq_kevent_list_fields handle_ready_absent
        uring_close_def simp del: kq_kevent_list.simps)

theorem close_drops_pending_witness:
  "kq_trace (snd (kq_close (kevent_ret 0 0) kq_sock kq_pending_recv)) = []
   \<and> pending_operations (snd (kq_close (kevent_ret 0 0) kq_sock kq_pending_recv)) 4 = None
   \<and> kq_fd (fst (kq_close (kevent_ret 0 0) kq_sock kq_pending_recv)) = -1
   \<and> ur_fd (fst (uring_close ur_sock
        (uring_async_receive_from indet_recv ur_sock buf5 (handler_of 1) (ur_init 4)))) = -1
   \<and> ur_trace (snd (uring_close ur_sock
        (uring_async_receive_from indet_recv ur_sock buf5 (handler_of 1) (ur_init 4)))) = []
   \<and> ur_refs (snd (uring_close ur_sock
        (uring_async_receive_from indet_recv ur_sock buf5 (handler_of 1) (ur_init 4)))) = [0]
   \<and> ur_heap (snd (uring_close ur_sock
        (uring_async_receive_from indet_recv ur_sock buf5 (handler_of 1) (ur_init 4)))) 0 \<noteq> None"
  using close_drops_pending [where so = kq_sock and kevent = "kevent_ret 0 0"
      and w = kq_pending_recv and kevent' = "kevent_ret 0 0" and sendto = "sendto_ret 0 0"
      and recvfrom = "recvfrom_ret 0 0 zero_sockaddr" and flt = EVFILT_READ and uso = ur_sock
      and uw = "uring_async_receive_from indet_recv ur_sock buf5 (handler_of 1) (ur_init 4)"]
  by (simp add: Let_def kq_sock_def kq_pending_recv_def kq_init_def ur_sock_def
        uring_async_receive_from_def sq_full_def ur_init_def ur_refs_def map_filter_simps)

section \<open>The lifetime of an operation record\<close>



text \<open>
  Two slips of the code bound what can be said in general. Under the ring backend
  \<^verbatim>\<open>stop()\<close> never sets the user data of its no-op, so once the submission ring has
  wrapped the no-op's completion names the record that used the slot before, and \<^verbatim>\<open>run()\<close>
  calls \<^verbatim>\<open>complete\<close> through a pointer to a record already deleted: with a ring of one
  entry, a send whose handler calls \<^verbatim>\<open>stop()\<close>, a run that completes it, and a second run.
  Under the kernel-completion backend \<^verbatim>\<open>run()\<close> ends at a dequeue that fails, without
  looking at the operation the packet names: that record stays allocated and its callback
  is never invoked.
\<close>

lemma stale_noop_faults:
  "fst (ur_exec [UrSend ur_sock buf5 zero_endpoint (stopper 1),
                 UrRun [KComplete 0 5 zero_sockaddr], UrRun []] (ur_init 1)) = False
   \<and> ur_deleted (snd (ur_exec [UrSend ur_sock buf5 zero_endpoint (stopper 1),
                 UrRun [KComplete 0 5 zero_sockaddr], UrRun []] (ur_init 1))) = [0]
   \<and> map cqe_user_data (ur_cq (snd (ur_exec [UrSend ur_sock buf5 zero_endpoint (stopper 1),
                 UrRun [KComplete 0 5 zero_sockaddr], UrRun []] (ur_init 1)))) = [Some 0]"
  by code_simp

lemma failed_dequeue_drops:
  "fst (iocp_run zero_endpoint
          [IoPost \<lparr>pk_ok = False, pk_bytes = 0, pk_key = 0, pk_overlapped = Some 0\<rparr> zero_sockaddr]
          (iocp_async_send_to (wsasendto_ret (-1) WSA_IO_PENDING) io_sock buf5 zero_endpoint
             (handler_of 1) io_init)) = Returned
   \<and> io_trace (snd (iocp_run zero_endpoint
          [IoPost \<lparr>pk_ok = False, pk_bytes = 0, pk_key = 0, pk_overlapped = Some 0\<rparr> zero_sockaddr]
          (iocp_async_send_to (wsasendto_ret (-1) WSA_IO_PENDING) io_sock buf5 zero_endpoint
             (handler_of 1) io_init))) = []
   \<and> io_deleted (snd (iocp_run zero_endpoint
          [IoPost \<lparr>pk_ok = False, pk_bytes = 0, pk_key = 0, pk_overlapped = Some 0\<rparr> zero_sockaddr]
          (iocp_async_send_to (wsasendto_ret (-1) WSA_IO_PENDING) io_sock buf5 zero_endpoint
             (handler_of 1) io_init))) = []
   \<and> io_refs (snd (iocp_run zero_endpoint
          [IoPost \<lparr>pk_ok = False, pk_bytes = 0, pk_key = 0, pk_overlapped = Some 0\<rparr> zero_sockaddr]
          (iocp_async_send_to (wsasendto_ret (-1) WSA_IO_PENDING) io_sock buf5 zero_endpoint
             (handler_of 1) io_init))) = []
   \<and> io_heap (snd (iocp_run zero_endpoint
          [IoPost \<lparr>pk_ok = False, pk_bytes = 0, pk_key = 0, pk_overlapped = Some 0\<rparr> zero_sockaddr]
          (iocp_async_send_to (wsasendto_ret (-1) WSA_IO_PENDING) io_sock buf5 zero_endpoint
             (handler_of 1) io_init))) 0 = Some (ISend \<lparr>is_handler = handler_of 1, is_wsabuf = buf5\<rparr>)"
  by code_simp



section \<open>How often a callback is invoked\<close>




end
